theory Spec2Isabelle
  imports Main
begin

section \<open>JavaScript values\<close>

text \<open>
  The store keeps LaunchPack records as plain JavaScript objects and the repository code
  reads and writes them through untyped member access, object spread and the generic
  \<open>deepMerge\<close>.  Values are therefore modelled as JSON-like trees.  An object is an
  association list in insertion order with pairwise distinct keys; \<open>JUndefined\<close> is the
  value of a missing property and may also be stored under a key, as in JavaScript.
  The only numeric field of a LaunchPack is the integer \<open>version\<close>, so numbers are
  the integers among the doubles.
\<close>

datatype jv =
    JUndefined
  | JNull
  | JBool bool
  | JNum int
  | JStr string
  | JArr "jv list"
  | JObj "(string \<times> jv) list"

type_synonym props = "(string \<times> jv) list"

text \<open>Truthiness, \<open>a || b\<close> and \<open>a ?? b\<close>.\<close>

fun truthy :: "jv \<Rightarrow> bool" where
  "truthy JUndefined = False"
| "truthy JNull = False"
| "truthy (JBool b) = b"
| "truthy (JNum n) = (n \<noteq> 0)"
| "truthy (JStr s) = (s \<noteq> [])"
| "truthy (JArr xs) = True"
| "truthy (JObj kvs) = True"

fun nullish :: "jv \<Rightarrow> bool" where
  "nullish JUndefined = True"
| "nullish JNull = True"
| "nullish v = False"

definition js_or :: "jv \<Rightarrow> jv \<Rightarrow> jv" where
  "js_or a b = (if truthy a then a else b)"

definition js_nc :: "jv \<Rightarrow> jv \<Rightarrow> jv" where
  "js_nc a b = (if nullish a then b else a)"

text \<open>Own enumerable properties: lookup, assignment (in place, else appended), spread.\<close>

fun lookup :: "props \<Rightarrow> string \<Rightarrow> jv" where
  "lookup [] k = JUndefined"
| "lookup ((k', v) # kvs) k = (if k' = k then v else lookup kvs k)"

fun has_key :: "props \<Rightarrow> string \<Rightarrow> bool" where
  "has_key [] k = False"
| "has_key ((k', v) # kvs) k = (k' = k \<or> has_key kvs k)"

fun assign :: "props \<Rightarrow> string \<Rightarrow> jv \<Rightarrow> props" where
  "assign [] k v = [(k, v)]"
| "assign ((k', v') # kvs) k v = (if k' = k then (k, v) # kvs else (k', v') # assign kvs k v)"

fun assigns :: "props \<Rightarrow> props \<Rightarrow> props" where
  "assigns obj [] = obj"
| "assigns obj ((k, v) # kvs) = assigns (assign obj k v) kvs"

definition digit_char :: "nat \<Rightarrow> char" where
  "digit_char d =
     (if d = 0 then CHR ''0'' else if d = 1 then CHR ''1'' else if d = 2 then CHR ''2''
      else if d = 3 then CHR ''3'' else if d = 4 then CHR ''4'' else if d = 5 then CHR ''5''
      else if d = 6 then CHR ''6'' else if d = 7 then CHR ''7'' else if d = 8 then CHR ''8''
      else CHR ''9'')"

function show_nat :: "nat \<Rightarrow> string" where
  "show_nat n = (if n < 10 then [digit_char n] else show_nat (n div 10) @ [digit_char (n mod 10)])"
  by pat_completeness auto
termination
  by (relation "measure id") auto

declare show_nat.simps [simp del]

definition show_int :: "int \<Rightarrow> string" where
  "show_int n = (if n < 0 then CHR ''-'' # show_nat (nat (- n)) else show_nat (nat n))"

fun index_props :: "nat \<Rightarrow> jv list \<Rightarrow> props" where
  "index_props i [] = []"
| "index_props i (x # xs) = (show_nat i, x) # index_props (Suc i) xs"

text \<open>\<open>{...v}\<close>: the own enumerable properties of \<open>v\<close>; an array spreads to its
  index keys, \<open>null\<close>, \<open>undefined\<close> and the scalars of a LaunchPack spread to nothing.\<close>

fun spread :: "jv \<Rightarrow> props" where
  "spread (JObj kvs) = kvs"
| "spread (JArr xs) = index_props 0 xs"
| "spread v = []"

text \<open>\<open>v[k]\<close> and \<open>v?.[k]\<close>.  Every member access of the modelled code is on an object,
  an array, or behind \<open>?.\<close> or \<open>|| {}\<close>, so a read of a property of anything else is
  \<open>undefined\<close>.  Inherited (prototype) properties are not modelled: the strict schemas
  of the LaunchPack admit no key that names one.\<close>

fun get_prop :: "jv \<Rightarrow> string \<Rightarrow> jv" where
  "get_prop (JObj kvs) k = lookup kvs k"
| "get_prop (JArr xs) k =
     (if k = ''length'' then JNum (int (length xs)) else lookup (index_props 0 xs) k)"
| "get_prop v k = JUndefined"

fun get_path :: "jv \<Rightarrow> string list \<Rightarrow> jv" where
  "get_path v [] = v"
| "get_path v (k # ks) = get_path (get_prop v k) ks"

fun is_object :: "jv \<Rightarrow> bool" where
  "is_object (JObj kvs) = True"
| "is_object (JArr xs) = True"
| "is_object v = False"

text \<open>\<open>String(v)\<close>.\<close>

fun js_String :: "jv \<Rightarrow> string"
  and js_join :: "jv list \<Rightarrow> string" where
  "js_String JUndefined = ''undefined''"
| "js_String JNull = ''null''"
| "js_String (JBool b) = (if b then ''true'' else ''false'')"
| "js_String (JNum n) = show_int n"
| "js_String (JStr s) = s"
| "js_String (JArr xs) = js_join xs"
| "js_String (JObj kvs) = ''[object Object]''"
| "js_join [] = []"
| "js_join [x] = (if nullish x then [] else js_String x)"
| "js_join (x # y # ys) = (if nullish x then [] else js_String x) @ '','' @ js_join (y # ys)"

section \<open>deepMerge\<close>

text \<open>
  \<^verbatim>\<open>
  function deepMerge(base: any, patch: any) {
    if (patch === undefined || patch === null) return base;
    if (Array.isArray(patch)) return patch;
    if (typeof patch !== 'object') return patch;
    if (typeof base !== 'object' || base === null) return patch;
    const merged: Record<string, any> = { ...base };
    for (const key of Object.keys(patch)) {
      merged[key] = deepMerge(base[key], (patch as Record<string, any>)[key]);
    }
    return merged;
  }
  \<close>
  \<open>mergeKeys\<close> is the \<open>for\<close> loop over the patch's keys, with \<open>merged\<close> as accumulator.
\<close>

fun deepMerge :: "jv \<Rightarrow> jv \<Rightarrow> jv"
  and mergeKeys :: "jv \<Rightarrow> props \<Rightarrow> props \<Rightarrow> props" where
  "deepMerge base JUndefined = base"
| "deepMerge base JNull = base"
| "deepMerge base (JArr xs) = JArr xs"
| "deepMerge base (JBool b) = JBool b"
| "deepMerge base (JNum n) = JNum n"
| "deepMerge base (JStr s) = JStr s"
| "deepMerge base (JObj ps) =
     (if \<not> is_object base then JObj ps else JObj (mergeKeys base (spread base) ps))"
| "mergeKeys base merged [] = merged"
| "mergeKeys base merged ((k, v) # ps) =
     mergeKeys base (assign merged k (deepMerge (get_prop base k) v)) ps"


section \<open>Errors, clock and validation\<close>

text \<open>
  A thrown \<open>Error\<close> carries an optional \<open>code\<close>, its \<open>message\<close> and optional \<open>details\<close>
  (see \<open>errorWithCode\<close>).  \<open>new Date().toISOString()\<close> and \<open>Date.now()\<close> are passed in
  as \<open>now_iso\<close> and \<open>now_ms\<close>; \<open>new Date(s).getTime()\<close> is the parameter \<open>parse\<close>, with
  \<open>None\<close> for an invalid date (\<open>NaN\<close>).  The stores take
  \<open>LaunchPackValidation.create\<close> and \<open>LaunchPackValidation.update\<close> as the parameter
  \<open>validate\<close>, which either throws or returns the parsed object; the schemas themselves
  are modelled below.
\<close>

datatype error = Error (err_code: "string option") (err_message: string) (err_details: jv)

type_synonym validator = "jv \<Rightarrow> error + jv"
type_synonym date_parser = "string \<Rightarrow> int option"

definition PUBLISH_COOLDOWN_MS :: int where
  "PUBLISH_COOLDOWN_MS = 10 * 60 * 1000"

text \<open>\<open>new Date(v).getTime()\<close> for a timestamp field (a string by the schema; an array
  or an object, which \<open>Date\<close> would first turn into a string, does not occur).\<close>

fun date_ms :: "date_parser \<Rightarrow> jv \<Rightarrow> int option" where
  "date_ms parse (JStr s) = parse s"
| "date_ms parse (JNum n) = Some n"
| "date_ms parse JNull = Some 0"
| "date_ms parse (JBool b) = Some (if b then 1 else 0)"
| "date_ms parse v = None"

text \<open>
  \<open>v + 1\<close> for the version counter.  A JavaScript number is a double: the sum of an
  integer and 1 is rounded to the nearest double, ties to the even significand
  (\<open>to_double\<close>), so it is exact below \<open>2^53 = 9007199254740992\<close> and \<open>2^53 + 1\<close> is \<open>2^53\<close>.  On a string, an
  array or an object \<open>+\<close> concatenates; \<open>undefined + 1\<close> is \<open>NaN\<close>, which is no value of
  the model and never arises, the operand being \<open>existing.version ?? 1\<close>.
\<close>

function bitlen :: "int \<Rightarrow> nat" where
  "bitlen n = (if n \<le> 0 then 0 else Suc (bitlen (n div 2)))"
  by pat_completeness auto
termination
  by (relation "measure nat") auto

declare bitlen.simps [simp del]

definition to_double :: "int \<Rightarrow> int" where
  "to_double m =
     (if \<bar>m\<bar> < 9007199254740992 then m
      else
        (let u = 2 ^ (bitlen \<bar>m\<bar> - 53);
             q = \<bar>m\<bar> div u;
             r = \<bar>m\<bar> mod u;
             q' = (if 2 * r < u \<or> (2 * r = u \<and> even q) then q else q + 1)
         in sgn m * (q' * u)))"

fun js_add1 :: "jv \<Rightarrow> jv" where
  "js_add1 (JNum n) = JNum (to_double (n + 1))"
| "js_add1 (JStr s) = JStr (s @ ''1'')"
| "js_add1 (JBool b) = JNum (if b then 2 else 1)"
| "js_add1 JNull = JNum 1"
| "js_add1 (JArr xs) = JStr (js_String (JArr xs) @ ''1'')"
| "js_add1 (JObj kvs) = JStr (js_String (JObj kvs) @ ''1'')"
| "js_add1 JUndefined = JUndefined"

text \<open>\<open>obj[k] = v\<close> on a record.\<close>

fun set_member :: "jv \<Rightarrow> string \<Rightarrow> jv \<Rightarrow> jv" where
  "set_member (JObj kvs) k v = JObj (assign kvs k v)"
| "set_member obj k v = obj"

text \<open>\<open>a === b\<close> on primitives; two objects are never the same reference here.\<close>

definition strict_eq :: "jv \<Rightarrow> jv \<Rightarrow> bool" where
  "strict_eq a b = (a = b \<and> \<not> is_object a)"

section \<open>The LaunchPack schemas\<close>

text \<open>
  The zod schemas of \<open>model/launchPack.ts\<close>.  A schema is its \<open>parse\<close>: a function from
  the input to the parsed output or to the issues found, an issue being its path and
  its code.  The input of a missing key is \<open>undefined\<close>.  The format checks of the
  library on strings (\<open>.url()\<close>, \<open>.uuid()\<close>, \<open>.datetime({ offset: true })\<close>) are
  parameters, collected in \<open>formats\<close>.  \<open>.trim()\<close> removes ASCII white space at both ends
  and \<open>toUpperCase\<close> maps the ASCII letters.
\<close>

type_synonym issue = "string list \<times> string"
type_synonym zschema = "jv \<Rightarrow> issue list + jv"
type_synonym zshape = "(string \<times> zschema) list"

record formats =
  url_ok :: "string \<Rightarrow> bool"
  uuid_ok :: "string \<Rightarrow> bool"
  datetime_ok :: "string \<Rightarrow> bool"

definition at_key :: "string \<Rightarrow> issue list \<Rightarrow> issue list" where
  "at_key k iss = map (\<lambda>(p, c). (k # p, c)) iss"

definition js_space :: "char \<Rightarrow> bool" where
  "js_space c = (c \<in> set [CHR 0x09, CHR 0x0A, CHR 0x0B, CHR 0x0C, CHR 0x0D, CHR '' ''])"

definition js_trim :: "string \<Rightarrow> string" where
  "js_trim s = rev (dropWhile js_space (rev (dropWhile js_space s)))"

definition upper_char :: "char \<Rightarrow> char" where
  "upper_char c =
     (case map_of (zip ''abcdefghijklmnopqrstuvwxyz'' ''ABCDEFGHIJKLMNOPQRSTUVWXYZ'') c of
        None \<Rightarrow> c | Some u \<Rightarrow> u)"

fun js_toUpperCase :: "jv \<Rightarrow> jv" where
  "js_toUpperCase (JStr s) = JStr (map upper_char s)"
| "js_toUpperCase v = v"

text \<open>\<open>z.string()\<close> with its checks in the order they are written: \<open>.trim()\<close> rewrites
  the string for the checks after it, a failing check adds its issue.\<close>

datatype zcheck = Trim | Min nat | Max nat | Format "string \<Rightarrow> bool"

fun string_checks :: "zcheck list \<Rightarrow> string \<Rightarrow> issue list \<times> string" where
  "string_checks [] s = ([], s)"
| "string_checks (Trim # cs) s = string_checks cs (js_trim s)"
| "string_checks (Min n # cs) s =
     (let (iss, s') = string_checks cs s
      in ((if length s < n then [([], ''too_small'')] else []) @ iss, s'))"
| "string_checks (Max n # cs) s =
     (let (iss, s') = string_checks cs s
      in ((if n < length s then [([], ''too_big'')] else []) @ iss, s'))"
| "string_checks (Format ok # cs) s =
     (let (iss, s') = string_checks cs s
      in ((if ok s then [] else [([], ''invalid_string'')]) @ iss, s'))"

definition z_string :: "zcheck list \<Rightarrow> zschema" where
  "z_string cs v =
     (case v of
        JStr s \<Rightarrow> (case string_checks cs s of (iss, s') \<Rightarrow> if iss = [] then Inr (JStr s') else Inl iss)
      | _ \<Rightarrow> Inl [([], ''invalid_type'')])"

definition z_transform :: "(jv \<Rightarrow> jv) \<Rightarrow> zschema \<Rightarrow> zschema" where
  "z_transform f p v = (case p v of Inl iss \<Rightarrow> Inl iss | Inr x \<Rightarrow> Inr (f x))"

definition z_enum :: "string list \<Rightarrow> zschema" where
  "z_enum vals v =
     (case v of
        JStr s \<Rightarrow> if s \<in> set vals then Inr (JStr s) else Inl [([], ''invalid_enum_value'')]
      | _ \<Rightarrow> Inl [([], ''invalid_type'')])"

definition z_boolean :: zschema where
  "z_boolean v = (case v of JBool b \<Rightarrow> Inr (JBool b) | _ \<Rightarrow> Inl [([], ''invalid_type'')])"

definition z_number_int_min :: "int \<Rightarrow> zschema" where
  \<comment> \<open>\<open>z.number().int().min(m)\<close>; the numbers of the model are integers\<close>
  "z_number_int_min m v =
     (case v of
        JNum n \<Rightarrow> if n < m then Inl [([], ''too_small'')] else Inr (JNum n)
      | _ \<Rightarrow> Inl [([], ''invalid_type'')])"

definition z_optional :: "zschema \<Rightarrow> zschema" where
  "z_optional p v = (if v = JUndefined then Inr JUndefined else p v)"

definition z_nullable :: "zschema \<Rightarrow> zschema" where
  "z_nullable p v = (if v = JNull then Inr JNull else p v)"

definition z_default :: "zschema \<Rightarrow> jv \<Rightarrow> zschema" where
  \<comment> \<open>\<open>p.default(d)\<close>: an \<open>undefined\<close> input is replaced by \<open>d\<close>, which \<open>p\<close> then parses\<close>
  "z_default p d v = p (if v = JUndefined then d else v)"

fun parse_items :: "zschema \<Rightarrow> nat \<Rightarrow> jv list \<Rightarrow> issue list \<times> jv list" where
  "parse_items p i [] = ([], [])"
| "parse_items p i (x # xs) =
     (let (iss, out) = parse_items p (Suc i) xs
      in case p x of
           Inl e \<Rightarrow> (at_key (show_nat i) e @ iss, out)
         | Inr v \<Rightarrow> (iss, v # out))"

definition z_array :: "zschema \<Rightarrow> zschema" where
  "z_array p v =
     (case v of
        JArr xs \<Rightarrow> (case parse_items p 0 xs of (iss, out) \<Rightarrow> if iss = [] then Inr (JArr out) else Inl iss)
      | _ \<Rightarrow> Inl [([], ''invalid_type'')])"

fun parse_entries :: "zschema \<Rightarrow> props \<Rightarrow> issue list \<times> props" where
  "parse_entries p [] = ([], [])"
| "parse_entries p ((k, x) # kvs) =
     (let (iss, out) = parse_entries p kvs
      in case p x of
           Inl e \<Rightarrow> (at_key k e @ iss, out)
         | Inr v \<Rightarrow> (iss, (k, v) # out))"

definition z_record :: "zschema \<Rightarrow> zschema" where
  \<comment> \<open>\<open>z.record(z.string(), p)\<close>\<close>
  "z_record p v =
     (case v of
        JObj kvs \<Rightarrow> (case parse_entries p kvs of (iss, out) \<Rightarrow> if iss = [] then Inr (JObj out) else Inl iss)
      | _ \<Rightarrow> Inl [([], ''invalid_type'')])"

text \<open>\<open>z.object(shape).strict()\<close>: the keys of the shape are parsed in the order of the
  shape, each from the input's value under that key; the output lacks a key when its
  parsed value is \<open>undefined\<close> and the input does not have the key; a key of the input
  that the shape does not have is an issue.\<close>

fun parse_shape :: "zshape \<Rightarrow> props \<Rightarrow> issue list \<times> props" where
  "parse_shape [] input = ([], [])"
| "parse_shape ((k, p) # shape) input =
     (let (iss, out) = parse_shape shape input
      in case p (lookup input k) of
           Inl e \<Rightarrow> (at_key k e @ iss, out)
         | Inr v \<Rightarrow> (iss, if v = JUndefined \<and> \<not> has_key input k then out else (k, v) # out))"

definition z_object :: "zshape \<Rightarrow> zschema" where
  "z_object shape v =
     (case v of
        JObj input \<Rightarrow>
          (case parse_shape shape input of
             (iss, out) \<Rightarrow>
               (let unrecognized = filter (\<lambda>k. k \<notin> set (map fst shape)) (map fst input);
                    issues = (if unrecognized = [] then [] else [([], ''unrecognized_keys'')]) @ iss
                in if issues = [] then Inr (JObj out) else Inl issues))
      | _ \<Rightarrow> Inl [([], ''invalid_type'')])"

text \<open>\<open>.omit({k: true, ...})\<close>, \<open>.extend({k: p})\<close> (a key of the shape keeps its place)
  and \<open>.partial()\<close>, which makes every key of the shape itself optional and leaves the
  schemas under the keys as they are.\<close>

definition omit :: "string list \<Rightarrow> zshape \<Rightarrow> zshape" where
  "omit ks shape = filter (\<lambda>(k, p). k \<notin> set ks) shape"

fun extend :: "zshape \<Rightarrow> string \<Rightarrow> zschema \<Rightarrow> zshape" where
  "extend [] k p = [(k, p)]"
| "extend ((k', p') # shape) k p = (if k' = k then (k, p) # shape else (k', p') # extend shape k p)"

definition partial :: "zshape \<Rightarrow> zshape" where
  "partial shape = map (\<lambda>(k, p). (k, z_optional p)) shape"

subsection \<open>The schemas\<close>

definition isoDateTime :: "formats \<Rightarrow> zschema" where
  "isoDateTime f = z_string [Format (datetime_ok f)]"

definition memeSchema :: "formats \<Rightarrow> zschema" where
  "memeSchema f = z_object
     [(''url'', z_string [Format (url_ok f)]),
      (''caption'', z_default (z_optional (z_string [Trim])) (JStr []))]"

definition scheduleItemSchema :: "formats \<Rightarrow> zschema" where
  "scheduleItemSchema f = z_object
     [(''when'', isoDateTime f),
      (''text'', z_string [Trim, Min 1]),
      (''media_url'', z_optional (z_string [Format (url_ok f)]))]"

definition brandSchema :: zschema where
  "brandSchema = z_object
     [(''name'', z_string [Trim, Min 1]),
      (''ticker'', z_transform js_toUpperCase (z_string [Trim, Min 1, Max 12])),
      (''tagline'', z_default (z_optional (z_string [Trim])) (JStr [])),
      (''description'', z_default (z_optional (z_string [Trim])) (JStr [])),
      (''lore'', z_default (z_optional (z_string [Trim])) (JStr []))]"

definition linksSchema :: "formats \<Rightarrow> zschema" where
  "linksSchema f = z_object
     [(''telegram'', z_optional (z_string [Format (url_ok f)])),
      (''x'', z_optional (z_string [Format (url_ok f)])),
      (''website'', z_optional (z_string [Format (url_ok f)]))]"

definition assetsSchema :: "formats \<Rightarrow> zschema" where
  "assetsSchema f = z_object
     [(''logo_url'', z_optional (z_string [Format (url_ok f)])),
      (''banner_url'', z_optional (z_string [Format (url_ok f)])),
      (''memes'', z_default (z_optional (z_array (memeSchema f))) (JArr []))]"

definition tgPinsSchema :: zschema where
  "tgPinsSchema = z_object
     [(''welcome'', z_default (z_optional (z_string [Trim])) (JStr [])),
      (''how_to_buy'', z_default (z_optional (z_string [Trim])) (JStr [])),
      (''memekit'', z_default (z_optional (z_string [Trim])) (JStr []))]"

definition tgSchema :: "formats \<Rightarrow> zschema" where
  "tgSchema f = z_object
     [(''chat_id'', z_optional (z_string [Trim])),
      (''pins'', z_default (z_optional tgPinsSchema)
                   (JObj [(''welcome'', JStr []), (''how_to_buy'', JStr []), (''memekit'', JStr [])])),
      (''schedule'', z_default (z_optional (z_array (scheduleItemSchema f))) (JArr []))]"

definition xSchema :: "formats \<Rightarrow> zschema" where
  "xSchema f = z_object
     [(''main_post'', z_default (z_optional (z_string [Trim])) (JStr [])),
      (''thread'', z_default (z_optional (z_array (z_string [Trim]))) (JArr [])),
      (''reply_bank'', z_default (z_optional (z_array (z_string [Trim]))) (JArr [])),
      (''schedule'', z_default (z_optional (z_array (scheduleItemSchema f))) (JArr []))]"

definition launchStatusSchema :: zschema where
  "launchStatusSchema = z_enum [''draft'', ''ready'', ''launched'', ''failed'']"

definition launchSchema :: "formats \<Rightarrow> zschema" where
  "launchSchema f = z_object
     [(''status'', z_default launchStatusSchema (JStr ''draft'')),
      (''mint'', z_optional (z_string [Trim])),
      (''tx_signature'', z_optional (z_string [Trim])),
      (''pump_url'', z_optional (z_string [Format (url_ok f)])),
      (''requested_at'', z_optional (isoDateTime f)),
      (''completed_at'', z_optional (isoDateTime f)),
      (''launched_at'', z_optional (isoDateTime f)),
      (''failed_at'', z_optional (isoDateTime f)),
      (''error_code'', z_optional (z_string [Trim])),
      (''error_message'', z_optional (z_string [Trim]))]"

definition auditEntrySchema :: "formats \<Rightarrow> zschema" where
  "auditEntrySchema f = z_object
     [(''at'', z_optional (isoDateTime f)),
      (''message'', z_string [Trim, Min 1]),
      (''actor'', z_optional (z_string [Trim]))]"

definition publishStatusSchema :: zschema where
  \<comment> \<open>\<open>z.enum(['idle', 'in_progress', 'published', 'failed'])\<close>\<close>
  "publishStatusSchema = z_enum [''idle'', ''in_progress'', ''published'', ''failed'']"

definition opsSchema :: "formats \<Rightarrow> zschema" where
  "opsSchema f = z_object
     [(''checklist'', z_default (z_optional (z_record z_boolean)) (JObj [])),
      (''audit_log'', z_default (z_optional (z_array (auditEntrySchema f))) (JArr [])),
      (''tg_publish_status'', z_optional publishStatusSchema),
      (''tg_publish_attempted_at'', z_optional (isoDateTime f)),
      (''tg_publish_failed_at'', z_optional (isoDateTime f)),
      (''tg_publish_error_code'', z_optional (z_nullable (z_string [Trim]))),
      (''tg_publish_error_message'', z_optional (z_nullable (z_string [Trim]))),
      (''tg_published_at'', z_optional (isoDateTime f)),
      (''tg_message_ids'', z_optional (z_array (z_string [Trim]))),
      (''tg_schedule_intent'', z_optional (z_array (scheduleItemSchema f))),
      (''x_publish_status'', z_optional publishStatusSchema),
      (''x_publish_attempted_at'', z_optional (isoDateTime f)),
      (''x_publish_failed_at'', z_optional (isoDateTime f)),
      (''x_publish_error_code'', z_optional (z_nullable (z_string [Trim]))),
      (''x_publish_error_message'', z_optional (z_nullable (z_string [Trim]))),
      (''x_published_at'', z_optional (isoDateTime f)),
      (''x_post_ids'', z_optional (z_array (z_string [Trim]))),
      (''x_tweet_ids'', z_optional (z_array (z_string [Trim]))),
      (''x_schedule_intent'', z_optional (z_array (scheduleItemSchema f)))]"

definition launchPackShape :: "formats \<Rightarrow> zshape" where
  "launchPackShape f =
     [(''id'', z_optional (z_string [Format (uuid_ok f)])),
      (''idempotency_key'', z_optional (z_string [Trim, Min 8])),
      (''version'', z_default (z_optional (z_number_int_min 1)) (JNum 1)),
      (''brand'', brandSchema),
      (''links'', z_default (z_optional (linksSchema f)) (JObj [])),
      (''assets'', z_default (z_optional (assetsSchema f)) (JObj [(''memes'', JArr [])])),
      (''tg'', z_default (z_optional (tgSchema f))
                 (JObj [(''pins'', JObj [(''welcome'', JStr []), (''how_to_buy'', JStr []),
                                         (''memekit'', JStr [])]),
                        (''schedule'', JArr [])])),
      (''x'', z_default (z_optional (xSchema f))
                (JObj [(''main_post'', JStr []), (''thread'', JArr []), (''reply_bank'', JArr []),
                       (''schedule'', JArr [])])),
      (''launch'', z_default (z_optional (launchSchema f)) (JObj [(''status'', JStr ''draft'')])),
      (''ops'', z_default (z_optional (opsSchema f)) (JObj [(''checklist'', JObj []), (''audit_log'', JArr [])])),
      (''created_at'', z_optional (isoDateTime f)),
      (''updated_at'', z_optional (isoDateTime f))]"

definition launchPackSchema :: "formats \<Rightarrow> zschema" where
  "launchPackSchema f = z_object (launchPackShape f)"

definition createLaunchPackSchema :: "formats \<Rightarrow> zschema" where
  "createLaunchPackSchema f =
     z_object (extend (omit [''created_at'', ''updated_at''] (launchPackShape f))
                 ''id'' (z_optional (z_string [Format (uuid_ok f)])))"

definition updateLaunchPackSchema :: "formats \<Rightarrow> zschema" where
  "updateLaunchPackSchema f =
     z_object (partial (omit [''id'', ''created_at'', ''updated_at''] (launchPackShape f)))"

text \<open>\<open>LaunchPackValidation\<close>: \<open>schema.parse(input)\<close> returns the output or throws a
  \<open>ZodError\<close> that carries the issues (its message, a rendering of the issues, is
  abbreviated to the name of the error).\<close>

definition zod_error :: "issue list \<Rightarrow> error" where
  "zod_error iss =
     Error None ''ZodError''
       (JArr (map (\<lambda>(p, c). JObj [(''code'', JStr c), (''path'', JArr (map JStr p))]) iss))"

definition zod_parse :: "zschema \<Rightarrow> jv \<Rightarrow> error + jv" where
  "zod_parse schema input = (case schema input of Inl iss \<Rightarrow> Inl (zod_error iss) | Inr v \<Rightarrow> Inr v)"

definition LaunchPackValidation_create :: "formats \<Rightarrow> jv \<Rightarrow> error + jv" where
  "LaunchPackValidation_create f = zod_parse (createLaunchPackSchema f)"

definition LaunchPackValidation_update :: "formats \<Rightarrow> jv \<Rightarrow> error + jv" where
  "LaunchPackValidation_update f = zod_parse (updateLaunchPackSchema f)"

section \<open>The in-memory store (\<open>createInMemoryLaunchPackStore\<close>)\<close>

text \<open>
  \<open>const store = new Map<string, LaunchPack>()\<close>: an association list from id to record
  in insertion order; \<open>store.get\<close> is \<^const>\<open>lookup\<close>, \<open>store.set\<close> is \<^const>\<open>assign\<close>
  (a key that is already present keeps its position), \<open>store.values()\<close> is \<open>map snd\<close>.
\<close>

type_synonym store = props

definition store_get :: "string \<Rightarrow> store \<Rightarrow> jv option" where
  \<comment> \<open>\<open>get(id)\<close>: \<open>store.get(id) || null\<close>\<close>
  "store_get ident st = (if truthy (lookup st ident) then Some (lookup st ident) else None)"

fun find_idempotent :: "jv list \<Rightarrow> jv \<Rightarrow> jv option" where
  "find_idempotent [] key = None"
| "find_idempotent (value # vs) key =
     (if strict_eq (get_prop value ''idempotency_key'') key then Some value
      else find_idempotent vs key)"

definition create :: "validator \<Rightarrow> string \<Rightarrow> string \<Rightarrow> jv \<Rightarrow> store \<Rightarrow> (error + jv) \<times> store" where
  "create validate uuid now_iso input st =
     (case validate input of
        Inl e \<Rightarrow> (Inl e, st)
      | Inr parsed \<Rightarrow>
          let ident = (case get_prop parsed ''id'' of JStr s \<Rightarrow> s | _ \<Rightarrow> uuid);
              found = (if truthy (get_prop parsed ''idempotency_key'')
                       then find_idempotent (map snd st) (get_prop parsed ''idempotency_key'')
                       else None)
          in (case found of
                Some value \<Rightarrow> (Inr value, st)
              | None \<Rightarrow>
                  (let record = JObj (assigns (spread parsed)
                        [(''id'', JStr ident),
                         (''version'', js_nc (get_prop parsed ''version'') (JNum 1)),
                         (''created_at'', JStr now_iso),
                         (''updated_at'', JStr now_iso)])
                   in (Inr record, assign st ident record))))"

definition update :: "validator \<Rightarrow> string \<Rightarrow> string \<Rightarrow> jv \<Rightarrow> store \<Rightarrow> (error + jv) \<times> store" where
  "update validate now_iso ident patch st =
     (let existing = lookup st ident in
      if \<not> truthy existing then (Inl (Error None ''LaunchPack not found'' JUndefined), st)
      else case validate patch of
        Inl e \<Rightarrow> (Inl e, st)
      | Inr parsed \<Rightarrow>
          let merged0 = deepMerge existing parsed;
              merged1 = set_member merged0 ''id'' (JStr ident);
              merged2 = set_member merged1 ''updated_at'' (JStr now_iso);
              currentVersion = js_nc (get_prop existing ''version'') (JNum 1);
              merged = set_member merged2 ''version'' (js_add1 currentVersion)
          in (Inr merged, assign st ident merged))"

definition claimLaunch :: "string \<Rightarrow> string \<Rightarrow> string \<Rightarrow> string \<Rightarrow> store \<Rightarrow> jv option \<times> store" where
  "claimLaunch now_iso ident requested_at status st =
     (let existing = lookup st ident;
          launch = get_prop existing ''launch'' in
      if \<not> truthy existing then (None, st)
      else if get_prop launch ''status'' = JStr ''launched'' then (None, st)
      else if truthy (get_prop launch ''requested_at'') \<and> get_prop launch ''status'' \<noteq> JStr ''failed''
        then (None, st)
      else
        let updated0 = JObj (assigns (spread existing)
              [(''launch'', JObj (assigns (spread (js_or launch (JObj [])))
                  [(''requested_at'', JStr requested_at), (''status'', JStr status)])),
               (''updated_at'', JStr now_iso)]);
            currentVersion = js_nc (get_prop existing ''version'') (JNum 1);
            updated = set_member updated0 ''version'' (js_add1 currentVersion)
        in (Some updated, assign st ident updated))"

text \<open>
  \<open>publishStatus(pack, key)\<close> and the two publish claims.  The channel is the key prefix
  \<open>''tg''\<close> or \<open>''x''\<close>; \<open>claimTelegramPublish\<close> and \<open>claimXPublish\<close> are the same code with
  the prefix exchanged.
\<close>

definition publishStatus :: "date_parser \<Rightarrow> jv \<Rightarrow> string \<Rightarrow> jv \<times> int option option" where
  "publishStatus parse pack key =
     (let ops = js_or (get_prop pack ''ops'') (JObj []);
          status = get_prop ops (key @ ''_publish_status'');
          failedAt = get_prop ops (key @ ''_publish_failed_at'')
      in (js_or status (JStr ''idle''),
          if truthy failedAt then Some (date_ms parse failedAt) else None))"

definition publish_claimed :: "string \<Rightarrow> jv \<Rightarrow> string \<Rightarrow> string \<Rightarrow> jv" where
  \<comment> \<open>the \<open>updated\<close> record of a successful publish claim\<close>
  "publish_claimed key existing now_iso requested_at =
     (let updated0 = JObj (assigns (spread existing)
            [(''ops'', JObj (assigns (spread (js_or (get_prop existing ''ops'') (JObj [])))
                [(key @ ''_publish_status'', JStr ''in_progress''),
                 (key @ ''_publish_attempted_at'', JStr requested_at),
                 (key @ ''_publish_error_code'', JUndefined),
                 (key @ ''_publish_error_message'', JUndefined)])),
             (''updated_at'', JStr now_iso)])
      in set_member updated0 ''version''
           (js_add1 (js_nc (get_prop existing ''version'') (JNum 1))))"

definition cooldown_blocks :: "int \<Rightarrow> int option option \<Rightarrow> bool" where
  \<comment> \<open>\<open>const failedMs = failedAt ? failedAt.getTime() : 0;
      failedMs && now - failedMs < PUBLISH_COOLDOWN_MS\<close>\<close>
  "cooldown_blocks now_ms failedAt =
     (case failedAt of
        None \<Rightarrow> False
      | Some None \<Rightarrow> False
      | Some (Some failedMs) \<Rightarrow> failedMs \<noteq> 0 \<and> now_ms - failedMs < PUBLISH_COOLDOWN_MS)"

definition claimPublish ::
  "string \<Rightarrow> date_parser \<Rightarrow> string \<Rightarrow> int \<Rightarrow> string \<Rightarrow> string \<Rightarrow> bool \<Rightarrow> store \<Rightarrow> jv option \<times> store" where
  "claimPublish key parse now_iso now_ms ident requested_at force st =
     (let existing = lookup st ident in
      if \<not> truthy existing then (None, st)
      else
        let (status, failedAt) = publishStatus parse existing key in
        if status = JStr ''published'' \<or> status = JStr ''in_progress'' then (None, st)
        else if status = JStr ''failed'' \<and> \<not> force \<and> cooldown_blocks now_ms failedAt
          then (None, st)
        else
          let updated = publish_claimed key existing now_iso requested_at
          in (Some updated, assign st ident updated))"

definition claimTelegramPublish ::
  "date_parser \<Rightarrow> string \<Rightarrow> int \<Rightarrow> string \<Rightarrow> string \<Rightarrow> bool \<Rightarrow> store \<Rightarrow> jv option \<times> store" where
  "claimTelegramPublish = claimPublish ''tg''"

definition claimXPublish ::
  "date_parser \<Rightarrow> string \<Rightarrow> int \<Rightarrow> string \<Rightarrow> string \<Rightarrow> bool \<Rightarrow> store \<Rightarrow> jv option \<times> store" where
  "claimXPublish = claimPublish ''x''"

text \<open>
  The due scans.  \<open>schedule.some(...)\<close> is over an array by the schema (\<open>array_items\<close>
  are the elements of an array); \<open>limit\<close> is a number.  A comparison with \<open>NaN\<close> (an
  unparsable date) is false.
\<close>

fun array_items :: "jv \<Rightarrow> jv list" where
  "array_items (JArr xs) = xs"
| "array_items v = []"

definition item_due :: "date_parser \<Rightarrow> int option \<Rightarrow> jv \<Rightarrow> bool" where
  "item_due parse nowTs item =
     (case (date_ms parse (get_prop item ''when''), nowTs) of
        (Some t, Some n) \<Rightarrow> t \<le> n
      | _ \<Rightarrow> False)"

definition pack_due :: "string \<Rightarrow> date_parser \<Rightarrow> int option \<Rightarrow> jv \<Rightarrow> bool" where
  "pack_due key parse nowTs pack =
     (let status = js_or (get_prop (get_prop pack ''ops'') (key @ ''_publish_status'')) (JStr ''idle'') in
      if status = JStr ''published'' \<or> status = JStr ''in_progress'' then False
      else
        let schedule = js_or (get_prop (get_prop pack key) ''schedule'')
                        (js_or (get_prop (get_prop pack ''ops'') (key @ ''_schedule_intent'')) (JArr []))
        in list_ex (item_due parse nowTs) (array_items schedule))"

fun due_loop :: "string \<Rightarrow> date_parser \<Rightarrow> int option \<Rightarrow> int \<Rightarrow> jv list \<Rightarrow> jv list \<Rightarrow> jv list" where
  "due_loop key parse nowTs limit results [] = results"
| "due_loop key parse nowTs limit results (pack # packs) =
     (if int (length results) \<ge> limit then results
      else if pack_due key parse nowTs pack
        then due_loop key parse nowTs limit (results @ [pack]) packs
        else due_loop key parse nowTs limit results packs)"

definition findDuePublishes :: "string \<Rightarrow> date_parser \<Rightarrow> string \<Rightarrow> int \<Rightarrow> store \<Rightarrow> jv list" where
  "findDuePublishes key parse nowIso limit st =
     due_loop key parse (parse nowIso) limit [] (map snd st)"

definition findDueTelegramPublishes :: "date_parser \<Rightarrow> string \<Rightarrow> int \<Rightarrow> store \<Rightarrow> jv list" where
  "findDueTelegramPublishes = findDuePublishes ''tg''"

definition findDueXPublishes :: "date_parser \<Rightarrow> string \<Rightarrow> int \<Rightarrow> store \<Rightarrow> jv list" where
  "findDueXPublishes = findDuePublishes ''x''"

section \<open>The SQL repository (\<open>LaunchPackRepository\<close>): claim statements\<close>

text \<open>
  A row of \<open>launch_packs\<close>: the JSONB document \<open>data\<close> and the denormalised columns.
  SQL \<open>NULL\<close> is \<open>None\<close>; a \<open>TIMESTAMPTZ\<close> is an instant in milliseconds.  The
  parameters of the statements: \<open>cast\<close> is the cast of a text to \<open>timestamptz\<close> (\<open>None\<close>:
  the cast raises and the query fails), \<open>tz_text\<close> is the cast of a \<open>timestamptz\<close> to
  \<open>text\<close> (its output form in the time zone of the session, such as
  \<open>2024-01-02 00:00:00+00\<close>), \<open>fmt\<close> is \<open>Date.prototype.toISOString\<close> on a returned
  timestamp column, \<open>now\<close> is \<open>NOW()\<close>.
\<close>

record row =
  r_id :: string
  r_idempotency_key :: "string option"
  r_data :: jv
  r_launch_status :: "string option"
  r_launch_requested_at :: "int option"
  r_created_at :: "int option"
  r_updated_at :: "int option"

type_synonym table = "row list"

text \<open>\<open>target -> key\<close> and \<open>target ->> key\<close> on JSONB.  The text of a number is its
  decimal form; the text of an array or object (never a status or a timestamp of the
  schema) is abbreviated to its brackets.\<close>

fun jsonb_arrow :: "jv option \<Rightarrow> string \<Rightarrow> jv option" where
  "jsonb_arrow (Some (JObj kvs)) k = (if has_key kvs k then Some (lookup kvs k) else None)"
| "jsonb_arrow v k = None"

fun jsonb_text :: "jv option \<Rightarrow> string option" where
  "jsonb_text None = None"
| "jsonb_text (Some JNull) = None"
| "jsonb_text (Some JUndefined) = None"
| "jsonb_text (Some (JStr s)) = Some s"
| "jsonb_text (Some (JBool b)) = Some (if b then ''true'' else ''false'')"
| "jsonb_text (Some (JNum n)) = Some (show_int n)"
| "jsonb_text (Some (JArr xs)) = Some ''[]''"
| "jsonb_text (Some (JObj kvs)) = Some ''{}''"

definition jsonb_arrow_text :: "jv option \<Rightarrow> string \<Rightarrow> string option" where
  "jsonb_arrow_text v k = jsonb_text (jsonb_arrow v k)"

text \<open>\<open>jsonb_set(target, '{a,b}', v, true)\<close>: the last path element is created when it is
  missing, an earlier one is not: without an object under \<open>a\<close> the target is returned
  unchanged.\<close>

fun jsonb_set :: "jv \<Rightarrow> string \<Rightarrow> string \<Rightarrow> jv \<Rightarrow> jv" where
  "jsonb_set (JObj kvs) a b v =
     (case lookup kvs a of
        JObj inner \<Rightarrow> JObj (assign kvs a (JObj (assign inner b v)))
      | _ \<Rightarrow> JObj kvs)"
| "jsonb_set target a b v = target"

text \<open>\<open>UPDATE ... WHERE cond ... RETURNING ...\<close>: the new table and the returned rows.\<close>

fun update_where :: "(row \<Rightarrow> bool) \<Rightarrow> (row \<Rightarrow> row) \<Rightarrow> table \<Rightarrow> table \<times> row list" where
  "update_where cond upd [] = ([], [])"
| "update_where cond upd (r # rs) =
     (let (rs', ret) = update_where cond upd rs in
      if cond r then (upd r # rs', upd r # ret) else (r # rs', ret))"

text \<open>\<open>toIso(value)\<close> on a timestamp column, and the record assembled from a returned row:
  \<open>{ ...stored, id: row.id || stored.id || id, created_at: ..., updated_at: ... }\<close>.\<close>

definition toIso :: "(int \<Rightarrow> string) \<Rightarrow> int option \<Rightarrow> jv" where
  "toIso fmt value = (case value of None \<Rightarrow> JUndefined | Some t \<Rightarrow> JStr (fmt t))"

definition row_to_pack :: "(int \<Rightarrow> string) \<Rightarrow> string \<Rightarrow> row \<Rightarrow> jv" where
  "row_to_pack fmt ident r =
     (let stored = js_or (r_data r) (JObj []) in
      JObj (assigns (spread stored)
        [(''id'', js_or (JStr (r_id r)) (js_or (get_prop stored ''id'') (JStr ident))),
         (''created_at'', js_or (toIso fmt (r_created_at r)) (get_prop stored ''created_at'')),
         (''updated_at'', js_or (toIso fmt (r_updated_at r)) (get_prop stored ''updated_at''))]))"

definition first_row :: "(int \<Rightarrow> string) \<Rightarrow> string \<Rightarrow> row list \<Rightarrow> jv option" where
  \<comment> \<open>\<open>if (!result.rows?.length) return null; const row = result.rows[0]; ...\<close>\<close>
  "first_row fmt ident rows = (case rows of [] \<Rightarrow> None | r # _ \<Rightarrow> Some (row_to_pack fmt ident r))"

definition cast_error :: error where
  "cast_error = Error (Some ''22007'') ''invalid input syntax for type timestamp with time zone'' JUndefined"

text \<open>
  A statement is analysed before it is run.  \<open>to_jsonb\<close> takes \<open>anyelement\<close>: the type
  of its argument must be known at analysis.  A parameter or a literal under a cast has
  the type of the cast; a string literal without a cast has the type \<open>unknown\<close>, for
  which the polymorphic type cannot be determined, and the statement is rejected
  (SQLSTATE 42804) before any row is read.  \<open>analyse\<close> takes the types of the arguments
  of the \<open>to_jsonb\<close> calls of a statement in the order of the statement's text.
\<close>

datatype sql_type = T_unknown | T_text | T_timestamptz | T_boolean | T_jsonb

definition polymorphic_error :: error where
  "polymorphic_error =
     Error (Some ''42804'') ''could not determine polymorphic type because input has type unknown''
       JUndefined"

fun analyse :: "sql_type list \<Rightarrow> error option" where
  "analyse [] = None"
| "analyse (ty # tys) = (if ty = T_unknown then Some polymorphic_error else analyse tys)"

text \<open>
  \<open>claimLaunch\<close>:
  \<^verbatim>\<open>
  UPDATE launch_packs
     SET launch_status = $3, launch_requested_at = $2::timestamptz,
         data = jsonb_set(jsonb_set(data, '{launch,requested_at}', to_jsonb($2::text), true),
                          '{launch,status}', to_jsonb($3::text), true),
         updated_at = NOW()
   WHERE id = $1 AND launch_status <> 'launched'
     AND (launch_requested_at IS NULL OR launch_status = 'failed')
  RETURNING id, data, created_at, updated_at, launch_status, launch_requested_at
  \<close>
  A comparison with a \<open>NULL\<close> status is not true.  The parameter \<open>$2\<close> is first used
  as \<open>$2::timestamptz\<close>, which makes it a \<open>timestamptz\<close> parameter: the text passed for it
  is cast on input (\<open>cast\<close>), and \<open>$2::text\<close> is the text of that timestamp (\<open>tz_text\<close>),
  not the text that was passed.  \<open>$3\<close> is assigned to a \<open>text\<close> column.
\<close>

definition claimLaunch_cond :: "string \<Rightarrow> row \<Rightarrow> bool" where
  "claimLaunch_cond ident r =
     (r_id r = ident
      \<and> (case r_launch_status r of None \<Rightarrow> False | Some s \<Rightarrow> s \<noteq> ''launched'')
      \<and> (r_launch_requested_at r = None \<or> r_launch_status r = Some ''failed''))"

definition claimLaunch_set :: "(int \<Rightarrow> string) \<Rightarrow> int \<Rightarrow> int \<Rightarrow> string \<Rightarrow> row \<Rightarrow> row" where
  "claimLaunch_set tz_text now ts status r =
     r\<lparr> r_launch_status := Some status,
        r_launch_requested_at := Some ts,
        r_data := jsonb_set (jsonb_set (r_data r) ''launch'' ''requested_at'' (JStr (tz_text ts)))
                    ''launch'' ''status'' (JStr status),
        r_updated_at := Some now \<rparr>"

definition claimLaunch_sql ::
  "date_parser \<Rightarrow> (int \<Rightarrow> string) \<Rightarrow> (int \<Rightarrow> string) \<Rightarrow> int \<Rightarrow> string \<Rightarrow> string \<Rightarrow> string \<Rightarrow> table
     \<Rightarrow> (error + jv option) \<times> table" where
  "claimLaunch_sql cast tz_text fmt now ident requested_at status tbl =
     (case analyse [T_text, T_text] of
        Some e \<Rightarrow> (Inl e, tbl)
      | None \<Rightarrow>
          (case cast requested_at of
             None \<Rightarrow> (Inl cast_error, tbl)
           | Some ts \<Rightarrow>
               (let (tbl', rows) =
                      update_where (claimLaunch_cond ident) (claimLaunch_set tz_text now ts status) tbl
                in (Inr (first_row fmt ident rows), tbl'))))"

text \<open>
  \<open>claimTelegramPublish\<close> and \<open>claimXPublish\<close> (the same statement with the key prefix
  exchanged):
  \<^verbatim>\<open>
  UPDATE launch_packs
     SET data = jsonb_set(jsonb_set(jsonb_set(data,
                    '{ops,tg_publish_status}', to_jsonb('in_progress'), true),
                    '{ops,tg_publish_attempted_at}', to_jsonb($2::text), true),
                    '{ops,tg_publish_error_code}', 'null'::jsonb, true),
         updated_at = NOW()
   WHERE id = $1
     AND COALESCE(data->'ops'->>'tg_publish_status', 'idle') <> 'published'
     AND COALESCE(data->'ops'->>'tg_publish_status', 'idle') <> 'in_progress'
     AND ( COALESCE(data->'ops'->>'tg_publish_status', 'idle') = 'idle'
           OR ( COALESCE(data->'ops'->>'tg_publish_status', 'idle') = 'failed'
                AND ( $3 = TRUE
                      OR COALESCE((data->'ops'->>'tg_publish_failed_at')::timestamptz,
                                  TO_TIMESTAMP(0)) <= NOW() - INTERVAL '10 minutes' ) ) )
  RETURNING id, data, created_at, updated_at
  \<close>
  \<open>to_jsonb('in_progress')\<close> has a string literal without a cast as its argument and
  \<open>to_jsonb($2::text)\<close> a \<open>text\<close>: the analysis rejects the statement, on every call.
  Below the analysis the statement is modelled as it reads: the condition is evaluated
  left to right; \<open>None\<close> is a failing cast of the stored \<open>failed_at\<close> text, which fails
  the query.
\<close>

definition sql_publish_status :: "string \<Rightarrow> row \<Rightarrow> string" where
  "sql_publish_status key r =
     (case jsonb_arrow_text (jsonb_arrow (Some (r_data r)) ''ops'') (key @ ''_publish_status'') of
        None \<Rightarrow> ''idle'' | Some s \<Rightarrow> s)"

definition claimPublish_cond :: "string \<Rightarrow> date_parser \<Rightarrow> int \<Rightarrow> string \<Rightarrow> bool \<Rightarrow> row \<Rightarrow> bool option" where
  "claimPublish_cond key cast now ident force r =
     (let status = sql_publish_status key r in
      if r_id r \<noteq> ident then Some False
      else if status = ''published'' \<or> status = ''in_progress'' then Some False
      else if status = ''idle'' then Some True
      else if status \<noteq> ''failed'' then Some False
      else if force then Some True
      else (case jsonb_arrow_text (jsonb_arrow (Some (r_data r)) ''ops'') (key @ ''_publish_failed_at'') of
              None \<Rightarrow> Some (0 \<le> now - PUBLISH_COOLDOWN_MS)
            | Some txt \<Rightarrow>
                (case cast txt of
                   None \<Rightarrow> None
                 | Some failed \<Rightarrow> Some (failed \<le> now - PUBLISH_COOLDOWN_MS))))"

definition claimPublish_set :: "string \<Rightarrow> int \<Rightarrow> string \<Rightarrow> row \<Rightarrow> row" where
  "claimPublish_set key now requested_at r =
     r\<lparr> r_data :=
          jsonb_set
            (jsonb_set
               (jsonb_set (r_data r) ''ops'' (key @ ''_publish_status'') (JStr ''in_progress''))
               ''ops'' (key @ ''_publish_attempted_at'') (JStr requested_at))
            ''ops'' (key @ ''_publish_error_code'') JNull,
        r_updated_at := Some now \<rparr>"

definition claimPublish_sql ::
  "string \<Rightarrow> date_parser \<Rightarrow> (int \<Rightarrow> string) \<Rightarrow> int \<Rightarrow> string \<Rightarrow> string \<Rightarrow> bool \<Rightarrow> table
     \<Rightarrow> (error + jv option) \<times> table" where
  "claimPublish_sql key cast fmt now ident requested_at force tbl =
     (case analyse [T_unknown, T_text] of
        Some e \<Rightarrow> (Inl e, tbl)
      | None \<Rightarrow>
          if list_ex (\<lambda>r. claimPublish_cond key cast now ident force r = None) tbl
          then (Inl cast_error, tbl)
          else
            (let (tbl', rows) =
                   update_where (\<lambda>r. claimPublish_cond key cast now ident force r = Some True)
                     (claimPublish_set key now requested_at) tbl
             in (Inr (first_row fmt ident rows), tbl')))"

definition claimTelegramPublish_sql ::
  "date_parser \<Rightarrow> (int \<Rightarrow> string) \<Rightarrow> int \<Rightarrow> string \<Rightarrow> string \<Rightarrow> bool \<Rightarrow> table
     \<Rightarrow> (error + jv option) \<times> table" where
  "claimTelegramPublish_sql = claimPublish_sql ''tg''"

definition claimXPublish_sql ::
  "date_parser \<Rightarrow> (int \<Rightarrow> string) \<Rightarrow> int \<Rightarrow> string \<Rightarrow> string \<Rightarrow> bool \<Rightarrow> table
     \<Rightarrow> (error + jv option) \<times> table" where
  "claimXPublish_sql = claimPublish_sql ''x''"

text \<open>
  \<open>LaunchPackRepository.create\<close>.  The record is passed as the \<open>$3::jsonb\<close> parameter,
  that is through \<open>JSON.stringify\<close>, which drops members that are \<open>undefined\<close> and
  writes \<open>null\<close> for an \<open>undefined\<close> array element.
  \<^verbatim>\<open>
  SELECT id, data, created_at, updated_at FROM launch_packs WHERE idempotency_key = $1 LIMIT 1
  INSERT INTO launch_packs (id, idempotency_key, data, created_at, updated_at,
                            launch_status, launch_requested_at)
  VALUES ($1, $2, $3::jsonb, $4, $5, $6, $7)
  ON CONFLICT (id) DO UPDATE
    SET data = EXCLUDED.data,
        idempotency_key = COALESCE(launch_packs.idempotency_key, EXCLUDED.idempotency_key),
        launch_status = EXCLUDED.launch_status,
        launch_requested_at = EXCLUDED.launch_requested_at,
        updated_at = EXCLUDED.updated_at
  \<close>
  The column \<open>idempotency_key\<close> is \<open>UNIQUE\<close>: writing a key that another row holds fails
  the statement.
\<close>

fun stringify :: "jv \<Rightarrow> jv"
  and stringify_props :: "props \<Rightarrow> props"
  and stringify_items :: "jv list \<Rightarrow> jv list" where
  "stringify (JObj kvs) = JObj (stringify_props kvs)"
| "stringify (JArr xs) = JArr (stringify_items xs)"
| "stringify JUndefined = JUndefined"
| "stringify JNull = JNull"
| "stringify (JBool b) = JBool b"
| "stringify (JNum n) = JNum n"
| "stringify (JStr s) = JStr s"
| "stringify_props [] = []"
| "stringify_props ((k, v) # kvs) =
     (if v = JUndefined then stringify_props kvs else (k, stringify v) # stringify_props kvs)"
| "stringify_items [] = []"
| "stringify_items (x # xs) = (if x = JUndefined then JNull else stringify x) # stringify_items xs"

definition select_by_key :: "string \<Rightarrow> table \<Rightarrow> row list" where
  "select_by_key k tbl = take 1 (filter (\<lambda>r. r_idempotency_key r = Some k) tbl)"

definition found_pack :: "(int \<Rightarrow> string) \<Rightarrow> row \<Rightarrow> jv" where
  \<comment> \<open>\<open>{ ...stored, id: row.id || stored.id, created_at: ..., updated_at: ... }\<close>\<close>
  "found_pack fmt r =
     (let stored = js_or (r_data r) (JObj []) in
      JObj (assigns (spread stored)
        [(''id'', js_or (JStr (r_id r)) (get_prop stored ''id'')),
         (''created_at'', js_or (toIso fmt (r_created_at r)) (get_prop stored ''created_at'')),
         (''updated_at'', js_or (toIso fmt (r_updated_at r)) (get_prop stored ''updated_at''))]))"

definition unique_error :: error where
  "unique_error = Error (Some ''23505'') ''duplicate key value violates unique constraint'' JUndefined"

fun upsert :: "row \<Rightarrow> table \<Rightarrow> table" where
  "upsert new [] = [new]"
| "upsert new (r # rs) =
     (if r_id r = r_id new
      then r\<lparr> r_data := r_data new,
              r_idempotency_key :=
                (case r_idempotency_key r of None \<Rightarrow> r_idempotency_key new | Some k \<Rightarrow> Some k),
              r_launch_status := r_launch_status new,
              r_launch_requested_at := r_launch_requested_at new,
              r_updated_at := r_updated_at new \<rparr> # rs
      else r # upsert new rs)"

definition key_taken :: "row \<Rightarrow> table \<Rightarrow> bool" where
  \<comment> \<open>the key the statement would write is held by a row with another id\<close>
  "key_taken new tbl =
     (let written = (case filter (\<lambda>r. r_id r = r_id new) tbl of
                       [] \<Rightarrow> r_idempotency_key new
                     | r # _ \<Rightarrow> (case r_idempotency_key r of None \<Rightarrow> r_idempotency_key new
                                 | Some k \<Rightarrow> Some k))
      in written \<noteq> None
         \<and> list_ex (\<lambda>r. r_id r \<noteq> r_id new \<and> r_idempotency_key r = written) tbl)"

definition create_sql ::
  "validator \<Rightarrow> string \<Rightarrow> string \<Rightarrow> date_parser \<Rightarrow> (int \<Rightarrow> string) \<Rightarrow> jv \<Rightarrow> table
     \<Rightarrow> (error + jv) \<times> table" where
  "create_sql validate uuid now_iso cast fmt input tbl =
     (case validate input of
        Inl e \<Rightarrow> (Inl e, tbl)
      | Inr parsed \<Rightarrow>
          (let ident = (case get_prop parsed ''id'' of JStr s \<Rightarrow> s | _ \<Rightarrow> uuid);
               idempotencyKey = get_prop parsed ''idempotency_key'';
               launchStatus = js_nc (get_prop (get_prop parsed ''launch'') ''status'') (JStr ''draft'');
               requested = get_prop (get_prop parsed ''launch'') ''requested_at'';
               existing = (if truthy idempotencyKey
                           then select_by_key (js_String idempotencyKey) tbl else [])
           in (case existing of
                 r # _ \<Rightarrow> (Inr (found_pack fmt r), tbl)
               | [] \<Rightarrow>
                   (let record = JObj (assigns (spread parsed)
                          [(''id'', JStr ident),
                           (''idempotency_key'', idempotencyKey),
                           (''version'', js_nc (get_prop parsed ''version'') (JNum 1)),
                           (''created_at'', JStr now_iso),
                           (''updated_at'', JStr now_iso)])
                    in (case (cast now_iso,
                              if truthy requested then map_option Some (date_ms cast requested)
                              else Some None) of
                          (Some ts, Some launchRequestedAt) \<Rightarrow>
                            (let new = \<lparr> r_id = ident,
                                         r_idempotency_key =
                                           (if nullish idempotencyKey then None
                                            else Some (js_String idempotencyKey)),
                                         r_data = stringify record,
                                         r_launch_status = Some (js_String launchStatus),
                                         r_launch_requested_at = launchRequestedAt,
                                         r_created_at = Some ts,
                                         r_updated_at = Some ts \<rparr>
                             in if key_taken new tbl then (Inl unique_error, tbl)
                                else (Inr record, upsert new tbl))
                        | _ \<Rightarrow> (Inl cast_error, tbl))))))"

text \<open>
  \<open>LaunchPackRepository.get\<close> and \<open>LaunchPackRepository.update\<close>:
  \<^verbatim>\<open>
  SELECT id, data, created_at, updated_at FROM launch_packs WHERE id = $1 LIMIT 1
  UPDATE launch_packs
     SET data = $2::jsonb, launch_status = $3, launch_requested_at = $4, updated_at = $5
   WHERE id = $1
  \<close>
\<close>

definition get_sql :: "(int \<Rightarrow> string) \<Rightarrow> string \<Rightarrow> table \<Rightarrow> jv option" where
  "get_sql fmt ident tbl = first_row fmt ident (take 1 (filter (\<lambda>r. r_id r = ident) tbl))"

definition update_sql ::
  "validator \<Rightarrow> string \<Rightarrow> date_parser \<Rightarrow> (int \<Rightarrow> string) \<Rightarrow> string \<Rightarrow> jv \<Rightarrow> table
     \<Rightarrow> (error + jv) \<times> table" where
  "update_sql validate now_iso cast fmt ident patch tbl =
     (case get_sql fmt ident tbl of
        None \<Rightarrow> (Inl (Error None ''LaunchPack not found'' JUndefined), tbl)
      | Some existing \<Rightarrow>
          (case validate patch of
             Inl e \<Rightarrow> (Inl e, tbl)
           | Inr parsed \<Rightarrow>
               (let merged0 = deepMerge existing parsed;
                    merged1 = set_member merged0 ''id'' (JStr ident);
                    merged2 = set_member merged1 ''updated_at'' (JStr now_iso);
                    currentVersion = js_nc (get_prop existing ''version'') (JNum 1);
                    merged = set_member merged2 ''version'' (js_add1 currentVersion);
                    launchStatus = js_nc (get_prop (get_prop merged ''launch'') ''status'') (JStr ''draft'');
                    requested = get_prop (get_prop merged ''launch'') ''requested_at''
                in (case (cast now_iso,
                          if truthy requested then map_option Some (date_ms cast requested)
                          else Some None) of
                      (Some ts, Some launchRequestedAt) \<Rightarrow>
                        (Inr merged,
                         map (\<lambda>r. if r_id r = ident
                                   then r\<lparr> r_data := stringify merged,
                                           r_launch_status := Some (js_String launchStatus),
                                           r_launch_requested_at := launchRequestedAt,
                                           r_updated_at := Some ts \<rparr>
                                   else r) tbl)
                    | _ \<Rightarrow> (Inl cast_error, tbl)))))"

text \<open>
  The due scans of the repository:
  \<^verbatim>\<open>
  SELECT id, data, created_at, updated_at FROM launch_packs
   WHERE COALESCE(data->'ops'->>'tg_publish_status', 'idle') NOT IN ('in_progress', 'published')
     AND EXISTS (
       SELECT 1 FROM jsonb_array_elements(
           COALESCE(data->'ops'->'tg_schedule_intent', data->'tg'->'schedule', '[]'::jsonb)) AS s
       WHERE (s->>'when')::timestamptz <= $1::timestamptz)
   ORDER BY updated_at ASC
   LIMIT $2
  \<close>
  \<open>None\<close> is a failing query: a cast that raises, \<open>jsonb_array_elements\<close> on something
  that is not an array, a negative \<open>LIMIT\<close>.  Rows with equal \<open>updated_at\<close> keep their
  table order (SQL leaves their order open); \<open>NULL\<close> sorts last.
\<close>

fun elements_due :: "date_parser \<Rightarrow> int \<Rightarrow> jv list \<Rightarrow> bool option" where
  "elements_due cast now [] = Some False"
| "elements_due cast now (s # ss) =
     (case jsonb_arrow_text (Some s) ''when'' of
        None \<Rightarrow> elements_due cast now ss
      | Some txt \<Rightarrow>
          (case cast txt of
             None \<Rightarrow> None
           | Some t \<Rightarrow> if t \<le> now then Some True else elements_due cast now ss))"

definition row_due :: "string \<Rightarrow> date_parser \<Rightarrow> int \<Rightarrow> row \<Rightarrow> bool option" where
  "row_due key cast now r =
     (let status = sql_publish_status key r in
      if status = ''in_progress'' \<or> status = ''published'' then Some False
      else
        (case (case jsonb_arrow (jsonb_arrow (Some (r_data r)) ''ops'') (key @ ''_schedule_intent'') of
                 Some v \<Rightarrow> v
               | None \<Rightarrow>
                   (case jsonb_arrow (jsonb_arrow (Some (r_data r)) key) ''schedule'' of
                      Some v \<Rightarrow> v
                    | None \<Rightarrow> JArr [])) of
           JArr ss \<Rightarrow> elements_due cast now ss
         | _ \<Rightarrow> None))"

definition updated_le :: "row \<Rightarrow> row \<Rightarrow> bool" where
  "updated_le a b =
     (case (r_updated_at a, r_updated_at b) of
        (Some x, Some y) \<Rightarrow> x \<le> y
      | (Some x, None) \<Rightarrow> True
      | (None, Some y) \<Rightarrow> False
      | (None, None) \<Rightarrow> True)"

fun insert_row :: "row \<Rightarrow> row list \<Rightarrow> row list" where
  "insert_row r [] = [r]"
| "insert_row r (x # xs) = (if updated_le r x then r # x # xs else x # insert_row r xs)"

definition order_by_updated_at :: "row list \<Rightarrow> row list" where
  "order_by_updated_at rows = foldr insert_row rows []"

definition findDuePublishes_sql ::
  "string \<Rightarrow> date_parser \<Rightarrow> (int \<Rightarrow> string) \<Rightarrow> string \<Rightarrow> int \<Rightarrow> table \<Rightarrow> jv list option" where
  "findDuePublishes_sql key cast fmt nowIso limit tbl =
     (case cast nowIso of
        None \<Rightarrow> None
      | Some now \<Rightarrow>
          if limit < 0 \<or> list_ex (\<lambda>r. row_due key cast now r = None) tbl then None
          else Some (map (found_pack fmt)
                       (take (nat limit)
                          (order_by_updated_at (filter (\<lambda>r. row_due key cast now r = Some True) tbl)))))"

definition findDueTelegramPublishes_sql ::
  "date_parser \<Rightarrow> (int \<Rightarrow> string) \<Rightarrow> string \<Rightarrow> int \<Rightarrow> table \<Rightarrow> jv list option" where
  "findDueTelegramPublishes_sql = findDuePublishes_sql ''tg''"

definition findDueXPublishes_sql ::
  "date_parser \<Rightarrow> (int \<Rightarrow> string) \<Rightarrow> string \<Rightarrow> int \<Rightarrow> table \<Rightarrow> jv list option" where
  "findDueXPublishes_sql = findDuePublishes_sql ''x''"

text \<open>The columns of a row are in step with its document, as \<open>create\<close>, \<open>update\<close> and
  \<open>claimLaunch\<close> of the repository write them:
  \<open>launch_status = data.launch?.status ?? 'draft'\<close> and \<open>launch_requested_at\<close> is
  \<open>NULL\<close> exactly when \<open>data.launch?.requested_at\<close> is falsy.\<close>

definition row_in_step :: "row \<Rightarrow> bool" where
  "row_in_step r =
     (js_nc (get_prop (get_prop (r_data r) ''launch'') ''status'') (JStr ''draft'')
        = (case r_launch_status r of None \<Rightarrow> JNull | Some s \<Rightarrow> JStr s)
      \<and> (r_launch_requested_at r = None)
          = (\<not> truthy (get_prop (get_prop (r_data r) ''launch'') ''requested_at'')))"

section \<open>The publish orchestrators\<close>

text \<open>
  The environment read by \<open>getEnv()\<close>, and the network.  A \<open>fetch\<close> is answered by the
  parameter \<open>net\<close> from the requests made so far and the request itself: it throws or
  returns a response with its \<open>ok\<close> flag and its body parsed as JSON (\<open>None\<close>: the body is
  not JSON).  The log of requests made is threaded through, so that the number and
  order of remote calls can be stated.  One instant \<open>now_iso\<close> stands for every
  \<open>nowIso()\<close> of a call.
\<close>

record env =
  TG_ENABLE :: "string option"
  TG_BOT_TOKEN :: "string option"
  TG_CHAT_ID :: "string option"
  X_ENABLE :: "string option"
  X_API_KEY :: "string option"
  X_API_SECRET :: "string option"
  X_ACCESS_TOKEN :: "string option"
  X_ACCESS_SECRET :: "string option"
  launchEnabled :: bool

datatype request = Request (req_url: string) (req_body: jv)

record response =
  resp_ok :: bool
  resp_status :: nat
  resp_json :: "jv option"

type_synonym net = "request list \<Rightarrow> request \<Rightarrow> error + response"

definition unset :: "string option \<Rightarrow> bool" where
  \<comment> \<open>\<open>!env.KEY\<close>\<close>
  "unset v = (case v of None \<Rightarrow> True | Some s \<Rightarrow> s = [])"

definition env_str :: "string option \<Rightarrow> string" where
  "env_str v = (case v of None \<Rightarrow> [] | Some s \<Rightarrow> s)"

definition errorWithCode :: "string \<Rightarrow> string \<Rightarrow> jv \<Rightarrow> error" where
  "errorWithCode c m d = Error (Some c) m d"

text \<open>\<open>appendAudit(log, message, actor)\<close>; \<open>audit_parse\<close> is
  \<open>auditEntrySchema.array().catch([]).parse\<close>.\<close>

definition appendAudit :: "(jv \<Rightarrow> jv list) \<Rightarrow> string \<Rightarrow> jv \<Rightarrow> string \<Rightarrow> string \<Rightarrow> jv" where
  "appendAudit audit_parse now_iso log msg actor =
     JArr (audit_parse (js_or log (JArr []))
           @ [JObj [(''at'', JStr now_iso), (''message'', JStr msg), (''actor'', JStr actor)]])"

text \<open>\<open>schedule.map((item) => ({ ...item, when: new Date(item.when).toISOString() }))\<close>;
  \<open>norm\<close> is \<open>new Date(v).toISOString()\<close>, which throws a \<open>RangeError\<close> (\<open>None\<close>) on an
  invalid date.\<close>

fun scheduleIntent :: "(jv \<Rightarrow> string option) \<Rightarrow> jv list \<Rightarrow> error + jv list" where
  "scheduleIntent norm [] = Inr []"
| "scheduleIntent norm (item # items) =
     (case norm (get_prop item ''when'') of
        None \<Rightarrow> Inl (Error None ''Invalid time value'' JUndefined)
      | Some w \<Rightarrow>
          (case scheduleIntent norm items of
             Inl e \<Rightarrow> Inl e
           | Inr rest \<Rightarrow> Inr (JObj (assign (spread item) ''when'' (JStr w)) # rest)))"

subsection \<open>Telegram\<close>

definition tgApi :: "net \<Rightarrow> string \<Rightarrow> string \<Rightarrow> jv \<Rightarrow> request list \<Rightarrow> (error + jv) \<times> request list" where
  "tgApi net token method bdy log =
     (let req = Request (''https://api.telegram.org/bot'' @ token @ ''/'' @ method) bdy in
      case net log req of
        Inl e \<Rightarrow> (Inl e, log @ [req])
      | Inr res \<Rightarrow>
          (let j = (case resp_json res of None \<Rightarrow> JObj [] | Some v \<Rightarrow> v) in
           if \<not> resp_ok res \<or> \<not> truthy (get_prop j ''ok'')
           then (Inl (errorWithCode ''TG_PUBLISH_FAILED'' (''Telegram '' @ method @ '' failed'') JUndefined),
                 log @ [req])
           else (Inr (get_prop j ''result''), log @ [req])))"

definition maybeSendAndPin :: "net \<Rightarrow> env \<Rightarrow> jv \<Rightarrow> request list \<Rightarrow> (error + jv) \<times> request list" where
  "maybeSendAndPin net e text log =
     (if \<not> truthy text then (Inr JNull, log)
      else
        case tgApi net (env_str (TG_BOT_TOKEN e)) ''sendMessage''
               (JObj [(''chat_id'', JStr (env_str (TG_CHAT_ID e))), (''text'', text),
                      (''disable_web_page_preview'', JBool True)]) log of
          (Inl err, log1) \<Rightarrow> (Inl err, log1)
        | (Inr msg, log1) \<Rightarrow>
            (let messageId = get_prop msg ''message_id'' in
             if nullish messageId
             then (Inl (errorWithCode ''TG_PUBLISH_FAILED'' ''Telegram sendMessage missing message_id'' JUndefined),
                   log1)
             else
               case tgApi net (env_str (TG_BOT_TOKEN e)) ''pinChatMessage''
                      (JObj [(''chat_id'', JStr (env_str (TG_CHAT_ID e))), (''message_id'', messageId)]) log1 of
                 (Inl err, log2) \<Rightarrow> (Inl err, log2)
               | (Inr r, log2) \<Rightarrow> (Inr messageId, log2)))"

text \<open>The three pins in order (\<open>welcome\<close>, \<open>how_to_buy\<close>, \<open>memekit\<close>), stopping at the first
  throw; \<open>messageIds\<close> is the accumulator.\<close>

fun sendPins :: "net \<Rightarrow> env \<Rightarrow> jv list \<Rightarrow> jv list \<Rightarrow> request list \<Rightarrow> (error + jv list) \<times> request list" where
  "sendPins net e [] messageIds log = (Inr messageIds, log)"
| "sendPins net e (text # texts) messageIds log =
     (case maybeSendAndPin net e text log of
        (Inl err, log1) \<Rightarrow> (Inl err, log1)
      | (Inr mid, log1) \<Rightarrow>
          sendPins net e texts
            (if nullish mid then messageIds else messageIds @ [JStr (js_String mid)]) log1)"

definition tg_success_patch :: "(jv \<Rightarrow> jv list) \<Rightarrow> string \<Rightarrow> jv \<Rightarrow> jv list \<Rightarrow> jv list \<Rightarrow> jv" where
  "tg_success_patch audit_parse now_iso claim messageIds intent =
     (let ops = get_prop claim ''ops'' in
      JObj [(''ops'', JObj (assigns (spread (js_or ops (JObj [])))
        [(''checklist'', JObj (assign (spread (js_or (get_prop ops ''checklist'') (JObj [])))
                                ''tg_published'' (JBool True))),
         (''tg_publish_status'', JStr ''published''),
         (''tg_published_at'', JStr now_iso),
         (''tg_message_ids'', JArr messageIds),
         (''tg_schedule_intent'', JArr intent),
         (''tg_publish_error_code'', JNull),
         (''tg_publish_error_message'', JNull),
         (''audit_log'', appendAudit audit_parse now_iso (get_prop ops ''audit_log'')
                           ''Telegram publish complete'' ''eliza'')]))])"

definition tg_failure_patch :: "string \<Rightarrow> jv \<Rightarrow> error \<Rightarrow> jv" where
  "tg_failure_patch now_iso claim err =
     JObj [(''ops'', JObj (assigns (spread (js_or (get_prop claim ''ops'') (JObj [])))
        [(''tg_publish_status'', JStr ''failed''),
         (''tg_publish_failed_at'', JStr now_iso),
         (''tg_publish_error_code'',
            JStr (case err_code err of None \<Rightarrow> ''TG_PUBLISH_FAILED''
                  | Some c \<Rightarrow> if c = [] then ''TG_PUBLISH_FAILED'' else c)),
         (''tg_publish_error_message'', JStr (err_message err))]))]"

text \<open>The body of the \<open>try\<close> block of \<open>TelegramPublisherService.publish\<close>, and the whole
  method.  The result is the returned record or the thrown error, the store and the
  request log.\<close>

definition tg_try ::
  "validator \<Rightarrow> (jv \<Rightarrow> jv list) \<Rightarrow> (jv \<Rightarrow> string option) \<Rightarrow> net \<Rightarrow> env \<Rightarrow> string \<Rightarrow> string
     \<Rightarrow> jv \<Rightarrow> store \<Rightarrow> request list \<Rightarrow> (error + jv) \<times> store \<times> request list" where
  "tg_try validate audit_parse norm net e now_iso ident claim st log =
     (let pins = js_nc (get_prop (get_prop claim ''tg'') ''pins'') (JObj []);
          schedule = js_nc (get_prop (get_prop claim ''tg'') ''schedule'') (JArr [])
      in case sendPins net e
                [get_prop pins ''welcome'', get_prop pins ''how_to_buy'', get_prop pins ''memekit'']
                [] log of
           (Inl err, log1) \<Rightarrow> (Inl err, st, log1)
         | (Inr messageIds, log1) \<Rightarrow>
             (case scheduleIntent norm (array_items schedule) of
                Inl err \<Rightarrow> (Inl err, st, log1)
              | Inr intent \<Rightarrow>
                  (case update validate now_iso ident
                          (tg_success_patch audit_parse now_iso claim messageIds intent) st of
                     (r, st1) \<Rightarrow> (r, st1, log1))))"

text \<open>\<open>try { ... } catch (error) { await this.store.update(id, {...failed...}); throw err; }\<close>:
  an error thrown by the \<open>update\<close> inside \<open>catch\<close> replaces the caught one.\<close>

definition tg_try_catch ::
  "validator \<Rightarrow> (jv \<Rightarrow> jv list) \<Rightarrow> (jv \<Rightarrow> string option) \<Rightarrow> net \<Rightarrow> env \<Rightarrow> string \<Rightarrow> string
     \<Rightarrow> jv \<Rightarrow> store \<Rightarrow> request list \<Rightarrow> (error + jv) \<times> store \<times> request list" where
  "tg_try_catch validate audit_parse norm net e now_iso ident claim st log =
     (case tg_try validate audit_parse norm net e now_iso ident claim st log of
        (Inr updated, st2, log2) \<Rightarrow> (Inr updated, st2, log2)
      | (Inl err, st2, log2) \<Rightarrow>
          (case update validate now_iso ident (tg_failure_patch now_iso claim err) st2 of
             (Inl err', st3) \<Rightarrow> (Inl err', st3, log2)
           | (Inr saved, st3) \<Rightarrow> (Inl err, st3, log2)))"

definition tg_publish ::
  "validator \<Rightarrow> (jv \<Rightarrow> jv list) \<Rightarrow> (jv \<Rightarrow> string option) \<Rightarrow> date_parser \<Rightarrow> net \<Rightarrow> env
     \<Rightarrow> string \<Rightarrow> int \<Rightarrow> string \<Rightarrow> bool \<Rightarrow> store \<Rightarrow> request list
     \<Rightarrow> (error + jv) \<times> store \<times> request list" where
  "tg_publish validate audit_parse norm parse net e now_iso now_ms ident force st log =
     (if TG_ENABLE e \<noteq> Some ''true''
        then (Inl (errorWithCode ''TG_DISABLED'' ''Telegram publishing disabled'' JUndefined), st, log)
      else if unset (TG_BOT_TOKEN e) \<or> unset (TG_CHAT_ID e)
        then (Inl (errorWithCode ''TG_CONFIG_MISSING'' ''Telegram configuration missing''
                (JObj [(''missingKeys'', JArr
                   ((if unset (TG_BOT_TOKEN e) then [JStr ''TG_BOT_TOKEN''] else [])
                    @ (if unset (TG_CHAT_ID e) then [JStr ''TG_CHAT_ID''] else [])))])), st, log)
      else
        (case store_get ident st of
           None \<Rightarrow> (Inl (errorWithCode ''NOT_FOUND'' ''LaunchPack not found'' JUndefined), st, log)
         | Some pack \<Rightarrow>
             (if \<not> truthy (get_path pack [''ops'', ''checklist'', ''tg_ready''])
                then (Inl (errorWithCode ''TG_NOT_READY'' ''Telegram checklist not ready'' JUndefined), st, log)
              else if truthy (get_path pack [''ops'', ''tg_published_at''])
                      \<and> get_path pack [''ops'', ''tg_publish_status''] = JStr ''published'' \<and> \<not> force
                then (Inr pack, st, log)
              else
                (case claimTelegramPublish parse now_iso now_ms ident now_iso force st of
                   (None, st1) \<Rightarrow>
                     (Inl (errorWithCode ''TG_PUBLISH_IN_PROGRESS'' ''Telegram publish already in progress''
                             JUndefined), st1, log)
                 | (Some claim, st1) \<Rightarrow>
                     tg_try_catch validate audit_parse norm net e now_iso ident claim st1 log))))"

subsection \<open>X\<close>

definition postTweet :: "net \<Rightarrow> env \<Rightarrow> jv \<Rightarrow> string option \<Rightarrow> request list \<Rightarrow> (error + string) \<times> request list" where
  "postTweet net e text replyToId log =
     (let bdy = (if unset replyToId then JObj [(''text'', text)]
                 else JObj [(''text'', text),
                            (''reply'', JObj [(''in_reply_to_tweet_id'', JStr (env_str replyToId))])]);
          req = Request ''https://api.twitter.com/2/tweets'' bdy
      in case net log req of
           Inl err \<Rightarrow> (Inl err, log @ [req])
         | Inr res \<Rightarrow>
             (let j = (case resp_json res of None \<Rightarrow> JObj [] | Some v \<Rightarrow> v);
                  tid = get_path j [''data'', ''id'']
              in if \<not> resp_ok res \<or> \<not> truthy tid
                 then (Inl (errorWithCode ''X_PUBLISH_FAILED'' ''X post failed'' JUndefined), log @ [req])
                 else (Inr (js_String tid), log @ [req])))"

text \<open>\<open>for (const post of claim.x?.thread || [])\<close>, each post a reply to the previous id;
  \<open>tweetIds\<close> and \<open>previousId\<close> are the loop state.\<close>

fun postThread ::
  "net \<Rightarrow> env \<Rightarrow> jv list \<Rightarrow> string list \<Rightarrow> string option \<Rightarrow> request list
     \<Rightarrow> (error + string list) \<times> request list" where
  "postThread net e [] tweetIds previousId log = (Inr tweetIds, log)"
| "postThread net e (post # posts) tweetIds previousId log =
     (case postTweet net e post previousId log of
        (Inl err, log1) \<Rightarrow> (Inl err, log1)
      | (Inr idStr, log1) \<Rightarrow> postThread net e posts (tweetIds @ [idStr]) (Some idStr) log1)"

definition x_success_patch :: "(jv \<Rightarrow> jv list) \<Rightarrow> string \<Rightarrow> jv \<Rightarrow> string list \<Rightarrow> jv list \<Rightarrow> jv" where
  "x_success_patch audit_parse now_iso claim tweetIds intent =
     (let ops = get_prop claim ''ops'' in
      JObj [(''ops'', JObj (assigns (spread (js_or ops (JObj [])))
        [(''checklist'', JObj (assign (spread (js_or (get_prop ops ''checklist'') (JObj [])))
                                ''x_published'' (JBool True))),
         (''x_publish_status'', JStr ''published''),
         (''x_published_at'', JStr now_iso),
         (''x_post_ids'', JArr (map JStr tweetIds)),
         (''x_tweet_ids'', JArr (map JStr tweetIds)),
         (''x_schedule_intent'', JArr intent),
         (''x_publish_error_code'', JNull),
         (''x_publish_error_message'', JNull),
         (''audit_log'', appendAudit audit_parse now_iso (get_prop ops ''audit_log'')
                           ''X publish complete'' ''eliza'')]))])"

definition x_failure_patch :: "string \<Rightarrow> jv \<Rightarrow> error \<Rightarrow> jv" where
  "x_failure_patch now_iso claim err =
     JObj [(''ops'', JObj (assigns (spread (js_or (get_prop claim ''ops'') (JObj [])))
        [(''x_publish_status'', JStr ''failed''),
         (''x_publish_failed_at'', JStr now_iso),
         (''x_publish_error_code'',
            JStr (case err_code err of None \<Rightarrow> ''X_PUBLISH_FAILED''
                  | Some c \<Rightarrow> if c = [] then ''X_PUBLISH_FAILED'' else c)),
         (''x_publish_error_message'', JStr (err_message err))]))]"

definition x_try ::
  "validator \<Rightarrow> (jv \<Rightarrow> jv list) \<Rightarrow> (jv \<Rightarrow> string option) \<Rightarrow> net \<Rightarrow> env \<Rightarrow> string \<Rightarrow> string
     \<Rightarrow> jv \<Rightarrow> store \<Rightarrow> request list \<Rightarrow> (error + jv) \<times> store \<times> request list" where
  "x_try validate audit_parse norm net e now_iso ident claim st log =
     (let mainText = get_prop (get_prop claim ''x'') ''main_post'';
          first = (if truthy mainText
                   then (case postTweet net e mainText None log of
                           (Inl err, log1) \<Rightarrow> (Inl err, log1)
                         | (Inr idStr, log1) \<Rightarrow> (Inr ([idStr], Some idStr), log1))
                   else (Inr ([], None), log))
      in case first of
           (Inl err, log1) \<Rightarrow> (Inl err, st, log1)
         | (Inr (tweetIds0, previousId), log1) \<Rightarrow>
             (case postThread net e
                     (array_items (js_or (get_prop (get_prop claim ''x'') ''thread'') (JArr [])))
                     tweetIds0 previousId log1 of
                (Inl err, log2) \<Rightarrow> (Inl err, st, log2)
              | (Inr tweetIds, log2) \<Rightarrow>
                  (case scheduleIntent norm
                          (array_items (js_or (get_prop (get_prop claim ''x'') ''schedule'') (JArr []))) of
                     Inl err \<Rightarrow> (Inl err, st, log2)
                   | Inr intent \<Rightarrow>
                       (case update validate now_iso ident
                               (x_success_patch audit_parse now_iso claim tweetIds intent) st of
                          (r, st1) \<Rightarrow> (r, st1, log2)))))"

definition x_try_catch ::
  "validator \<Rightarrow> (jv \<Rightarrow> jv list) \<Rightarrow> (jv \<Rightarrow> string option) \<Rightarrow> net \<Rightarrow> env \<Rightarrow> string \<Rightarrow> string
     \<Rightarrow> jv \<Rightarrow> store \<Rightarrow> request list \<Rightarrow> (error + jv) \<times> store \<times> request list" where
  "x_try_catch validate audit_parse norm net e now_iso ident claim st log =
     (case x_try validate audit_parse norm net e now_iso ident claim st log of
        (Inr updated, st2, log2) \<Rightarrow> (Inr updated, st2, log2)
      | (Inl err, st2, log2) \<Rightarrow>
          (case update validate now_iso ident (x_failure_patch now_iso claim err) st2 of
             (Inl err', st3) \<Rightarrow> (Inl err', st3, log2)
           | (Inr saved, st3) \<Rightarrow> (Inl err, st3, log2)))"

definition x_publish ::
  "validator \<Rightarrow> (jv \<Rightarrow> jv list) \<Rightarrow> (jv \<Rightarrow> string option) \<Rightarrow> date_parser \<Rightarrow> net \<Rightarrow> env
     \<Rightarrow> string \<Rightarrow> int \<Rightarrow> string \<Rightarrow> bool \<Rightarrow> store \<Rightarrow> request list
     \<Rightarrow> (error + jv) \<times> store \<times> request list" where
  "x_publish validate audit_parse norm parse net e now_iso now_ms ident force st log =
     (if X_ENABLE e \<noteq> Some ''true''
        then (Inl (errorWithCode ''X_DISABLED'' ''X publishing disabled'' JUndefined), st, log)
      else if unset (X_API_KEY e) \<or> unset (X_API_SECRET e) \<or> unset (X_ACCESS_TOKEN e)
              \<or> unset (X_ACCESS_SECRET e)
        then (Inl (errorWithCode ''X_CONFIG_MISSING'' ''X configuration missing''
                (JObj [(''missingKeys'', JArr
                   ((if unset (X_API_KEY e) then [JStr ''X_API_KEY''] else [])
                    @ (if unset (X_API_SECRET e) then [JStr ''X_API_SECRET''] else [])
                    @ (if unset (X_ACCESS_TOKEN e) then [JStr ''X_ACCESS_TOKEN''] else [])
                    @ (if unset (X_ACCESS_SECRET e) then [JStr ''X_ACCESS_SECRET''] else [])))])), st, log)
      else
        (case store_get ident st of
           None \<Rightarrow> (Inl (errorWithCode ''NOT_FOUND'' ''LaunchPack not found'' JUndefined), st, log)
         | Some pack \<Rightarrow>
             (if \<not> truthy (get_path pack [''ops'', ''checklist'', ''x_ready''])
                then (Inl (errorWithCode ''X_NOT_READY'' ''X checklist not ready'' JUndefined), st, log)
              else if truthy (get_path pack [''ops'', ''x_published_at''])
                      \<and> get_path pack [''ops'', ''x_publish_status''] = JStr ''published'' \<and> \<not> force
                then (Inr pack, st, log)
              else
                (case claimXPublish parse now_iso now_ms ident now_iso force st of
                   (None, st1) \<Rightarrow>
                     (Inl (errorWithCode ''X_PUBLISH_IN_PROGRESS'' ''X publish already in progress''
                             JUndefined), st1, log)
                 | (Some claim, st1) \<Rightarrow>
                     x_try_catch validate audit_parse norm net e now_iso ident claim st1 log))))"

section \<open>The launch orchestrator\<close>

text \<open>
  \<open>fetchWithTimeout(url, init, totalTimeoutMs = 20000, connectTimeoutMs = 10000)\<close> arms
  two timers and awaits \<open>fetch\<close>; a timer that fires aborts the request, and both timers
  are cleared in \<open>finally\<close>, that is once \<open>fetch\<close> has settled.  The remote side is
  described by the millisecond at which \<open>fetch\<close> settles (the response headers have
  arrived, or the request is rejected), or that it never does; a response comes with
  the millisecond at which its body will have been received (\<open>None\<close>: never), which
  \<open>fetchWithTimeout\<close> hands on with the response.  Of two timers due at the same
  millisecond the one armed first, the total timer, fires first; a timer that is due
  when \<open>fetch\<close> settles counts as fired.
\<close>

definition MAX_LOGO_BYTES :: int where
  "MAX_LOGO_BYTES = 8 * 1024 * 1024"

definition LOGO_FETCH_TOTAL_TIMEOUT_MS :: int where
  "LOGO_FETCH_TOTAL_TIMEOUT_MS = 20000"

definition LOGO_FETCH_CONNECT_TIMEOUT_MS :: int where
  "LOGO_FETCH_CONNECT_TIMEOUT_MS = 10000"

datatype fetch_outcome = Responds int response "int option" | Rejects int error | Pending

definition timeout_error :: "int \<Rightarrow> int \<Rightarrow> error" where
  "timeout_error totalTimeoutMs connectTimeoutMs =
     (if totalTimeoutMs \<le> connectTimeoutMs
      then errorWithCode ''LOGO_FETCH_FAILED'' ''Logo fetch total timeout''
             (JObj [(''timeoutMs'', JNum totalTimeoutMs)])
      else errorWithCode ''LOGO_FETCH_FAILED'' ''Logo fetch connect timeout''
             (JObj [(''timeoutMs'', JNum connectTimeoutMs)]))"

definition fetchWithTimeout :: "fetch_outcome \<Rightarrow> int \<Rightarrow> int \<Rightarrow> error + response \<times> int option" where
  "fetchWithTimeout outcome totalTimeoutMs connectTimeoutMs =
     (case outcome of
        Responds t res body_at \<Rightarrow>
          if t < min totalTimeoutMs connectTimeoutMs then Inr (res, body_at)
          else Inl (timeout_error totalTimeoutMs connectTimeoutMs)
      | Rejects t err \<Rightarrow>
          if t < min totalTimeoutMs connectTimeoutMs then Inl err
          else Inl (timeout_error totalTimeoutMs connectTimeoutMs)
      | Pending \<Rightarrow> Inl (timeout_error totalTimeoutMs connectTimeoutMs))"









text \<open>
  \<open>ensureLaunchAllowed(pack, forceRetry)\<close>; \<open>None\<close>: nothing is thrown.
\<close>

definition ensureLaunchAllowed :: "date_parser \<Rightarrow> env \<Rightarrow> int \<Rightarrow> jv \<Rightarrow> bool \<Rightarrow> error option" where
  "ensureLaunchAllowed parse e now_ms pack forceRetry =
     (let launch = get_prop pack ''launch'' in
      if \<not> launchEnabled e then Some (Error (Some ''LAUNCH_DISABLED'') ''Launch disabled'' JUndefined)
      else if get_prop launch ''status'' = JStr ''launched''
        then Some (Error (Some ''ALREADY_LAUNCHED'') ''Already launched'' JUndefined)
      else if truthy (get_prop launch ''requested_at'') \<and> get_prop launch ''status'' \<noteq> JStr ''failed''
        then Some (Error (Some ''LAUNCH_IN_PROGRESS'') ''Launch in progress'' JUndefined)
      else if get_prop launch ''status'' = JStr ''failed'' \<and> \<not> forceRetry
        then (case (if truthy (get_prop launch ''failed_at'')
                    then date_ms parse (get_prop launch ''failed_at'') else Some 0) of
                None \<Rightarrow> Some (Error (Some ''LAUNCH_FAILED_RETRY_BLOCKED'')
                                ''Previous launch failed; retry blocked'' JUndefined)
              | Some failedAt \<Rightarrow>
                  if failedAt = 0 \<or> now_ms - failedAt < 10 * 60 * 1000
                  then Some (Error (Some ''LAUNCH_FAILED_RETRY_BLOCKED'')
                               ''Previous launch failed; retry blocked'' JUndefined)
                  else None)
      else None)"

definition launch_failure_patch :: "(jv \<Rightarrow> jv list) \<Rightarrow> string \<Rightarrow> jv \<Rightarrow> error \<Rightarrow> jv" where
  "launch_failure_patch audit_parse now_iso withRequested err =
     JObj [(''launch'', JObj (assigns (spread (js_or (get_prop withRequested ''launch'') (JObj [])))
              [(''status'', JStr ''failed''),
               (''failed_at'', JStr now_iso),
               (''error_code'',
                  JStr (case err_code err of None \<Rightarrow> ''LAUNCH_FAILED''
                        | Some c \<Rightarrow> if c = [] then ''LAUNCH_FAILED'' else c)),
               (''error_message'', JStr (err_message err))])),
           (''ops'', JObj (assigns (spread (js_or (get_prop withRequested ''ops'') (JObj [])))
              [(''audit_log'', appendAudit audit_parse now_iso
                                 (get_path withRequested [''ops'', ''audit_log''])
                                 (''Launch failed: '' @ err_message err) ''eliza'')]))]"

text \<open>
  \<open>PumpLauncherService.launch\<close>.  \<open>checks\<close> is the outcome of \<open>enforceCaps()\<close> and
  \<open>resolveSlippage()\<close> (configuration arithmetic on floating-point numbers; \<open>Some\<close> is
  the error they throw).  \<open>attempt\<close> is the body of the \<open>try\<close> block up to the final
  \<open>update\<close>: \<open>ensureLauncherWallet\<close>, \<open>uploadMetadataToPumpIPFS\<close> and
  \<open>createTokenOnPumpPortal\<close> on the claimed record, which throw or return the launched
  record.
\<close>

definition launch_try_catch ::
  "validator \<Rightarrow> (jv \<Rightarrow> jv list) \<Rightarrow> (jv \<Rightarrow> error + jv) \<Rightarrow> string \<Rightarrow> string \<Rightarrow> jv \<Rightarrow> store
     \<Rightarrow> (error + jv) \<times> store" where
  "launch_try_catch validate audit_parse attempt now_iso ident withRequested st =
     (let tried =
            (case attempt withRequested of
               Inl err \<Rightarrow> (Inl err, st)
             | Inr launched \<Rightarrow>
                 update validate now_iso ident
                   (JObj [(''launch'', get_prop launched ''launch''), (''ops'', get_prop launched ''ops'')]) st)
      in case tried of
           (Inr saved, st1) \<Rightarrow> (Inr saved, st1)
         | (Inl err, st1) \<Rightarrow>
             (case update validate now_iso ident
                     (launch_failure_patch audit_parse now_iso withRequested err) st1 of
                (Inl err', st2) \<Rightarrow> (Inl err', st2)
              | (Inr saved, st2) \<Rightarrow> (Inl err, st2)))"

definition launch ::
  "validator \<Rightarrow> (jv \<Rightarrow> jv list) \<Rightarrow> date_parser \<Rightarrow> env \<Rightarrow> error option \<Rightarrow> (jv \<Rightarrow> error + jv)
     \<Rightarrow> string \<Rightarrow> int \<Rightarrow> string \<Rightarrow> bool \<Rightarrow> store \<Rightarrow> (error + jv) \<times> store" where
  "launch validate audit_parse parse e checks attempt now_iso now_ms ident force st =
     (case store_get ident st of
        None \<Rightarrow> (Inl (Error None ''LaunchPack not found'' JUndefined), st)
      | Some existing \<Rightarrow>
          (if get_path existing [''launch'', ''status''] = JStr ''launched'' then (Inr existing, st)
           else
             (case ensureLaunchAllowed parse e now_ms existing force of
                Some err \<Rightarrow> (Inl err, st)
              | None \<Rightarrow>
                  (case checks of
                     Some err \<Rightarrow> (Inl err, st)
                   | None \<Rightarrow>
                       (case claimLaunch now_iso ident now_iso ''ready'' st of
                          (None, st1) \<Rightarrow>
                            (Inl (Error (Some ''LAUNCH_IN_PROGRESS'') ''Launch in progress'' JUndefined), st1)
                        | (Some claimed, st1) \<Rightarrow>
                            launch_try_catch validate audit_parse attempt now_iso ident claimed st1)))))"

section \<open>Schema facts used as hypotheses\<close>

text \<open>A timestamp field of a stored record is absent or an ISO date-time string
  (\<open>isoDateTime.optional()\<close>), hence never the empty string.\<close>

fun timestamp_field :: "jv \<Rightarrow> bool" where
  "timestamp_field JUndefined = True"
| "timestamp_field (JStr s) = (s \<noteq> [])"
| "timestamp_field v = False"

text \<open>A publish status is absent or one of the four values of the schema's enum.\<close>

fun status_field :: "jv \<Rightarrow> bool" where
  "status_field JUndefined = True"
| "status_field (JStr s) = (s = ''idle'' \<or> s = ''in_progress'' \<or> s = ''published'' \<or> s = ''failed'')"
| "status_field v = False"

text \<open>What the writers of the repository maintain: the row is in step and the \<open>launch\<close>
  member of its document is an object (with pairwise distinct keys, as every object
  has).  And what they need of a parsed input for it: the \<open>launch\<close> member that the
  schema returns is an object whose \<open>status\<close> is a string and whose \<open>requested_at\<close> is
  absent or a non-empty string; in a parsed patch it may also be missing.\<close>

fun is_string :: "jv \<Rightarrow> bool" where
  "is_string (JStr s) = True"
| "is_string v = False"

definition launch_doc_ok :: "jv \<Rightarrow> bool" where
  "launch_doc_ok v = (case get_prop v ''launch'' of JObj l \<Rightarrow> distinct (map fst l) | _ \<Rightarrow> False)"

definition row_ok :: "row \<Rightarrow> bool" where
  "row_ok r = (row_in_step r \<and> launch_doc_ok (r_data r))"

definition launch_part_ok :: "jv \<Rightarrow> bool" where
  "launch_part_ok v =
     (case v of
        JObj l \<Rightarrow> distinct (map fst l) \<and> is_string (lookup l ''status'')
                  \<and> timestamp_field (lookup l ''requested_at'')
      | _ \<Rightarrow> False)"

definition parsed_input_ok :: "jv \<Rightarrow> bool" where
  "parsed_input_ok parsed =
     (case parsed of JObj ps \<Rightarrow> launch_part_ok (lookup ps ''launch'') | _ \<Rightarrow> False)"

definition parsed_patch_ok :: "jv \<Rightarrow> bool" where
  "parsed_patch_ok parsed =
     (case parsed of
        JObj ps \<Rightarrow> distinct (map fst ps)
                   \<and> (lookup ps ''launch'' = JUndefined \<or> launch_part_ok (lookup ps ''launch''))
      | _ \<Rightarrow> False)"

section \<open>Fields of a record and fields a patch mentions\<close>

text \<open>
  \<open>has_path v p\<close>: the nested field named by the key path \<open>p\<close> is present in \<open>v\<close> (an own
  enumerable property at every step).  \<open>untouched patch p\<close>: the patch does not mention
  the field at \<open>p\<close>: following \<open>p\<close> through the patch ends, before \<open>p\<close> is used up, at an
  object without the next key, or ends at \<open>null\<close> or \<open>undefined\<close>.  \<open>nulled patch p\<close>: the
  patch sets the field at \<open>p\<close> explicitly to \<open>null\<close> or \<open>undefined\<close>.
\<close>

fun has_path :: "jv \<Rightarrow> string list \<Rightarrow> bool" where
  "has_path v [] = True"
| "has_path v (k # ks) = (has_key (spread v) k \<and> has_path (get_prop v k) ks)"

fun untouched :: "jv \<Rightarrow> string list \<Rightarrow> bool"
  and untouched_in :: "props \<Rightarrow> string \<Rightarrow> string list \<Rightarrow> bool" where
  "untouched JUndefined p = True"
| "untouched JNull p = True"
| "untouched (JObj ps) [] = False"
| "untouched (JObj ps) (k # ks) = untouched_in ps k ks"
| "untouched (JArr xs) p = False"
| "untouched (JBool b) p = False"
| "untouched (JNum n) p = False"
| "untouched (JStr s) p = False"
| "untouched_in [] k ks = True"
| "untouched_in ((k', v) # ps) k ks = ((k' \<noteq> k \<or> untouched v ks) \<and> untouched_in ps k ks)"

fun nulled :: "jv \<Rightarrow> string list \<Rightarrow> bool" where
  "nulled v [] = nullish v"
| "nulled (JObj ps) (k # ks) = (has_key ps k \<and> distinct (map fst ps) \<and> nulled (lookup ps k) ks)"
| "nulled v (k # ks) = False"

section \<open>Example data\<close>

text \<open>A small stored record, and a store holding it under the id \<open>p1\<close>.\<close>

definition example_fields :: props where
  "example_fields =
     [(''id'', JStr ''p1''),
      (''version'', JNum 1),
      (''brand'', JObj [(''name'', JStr ''Meme King''), (''tagline'', JStr ''Rule the memes'')]),
      (''launch'', JObj [(''status'', JStr ''draft'')]),
      (''ops'', JObj [(''checklist'', JObj [(''tg_ready'', JBool True)]),
                     (''audit_log'', JArr []),
                     (''tg_publish_error_code'', JStr ''TG_PUBLISH_FAILED'')]),
      (''updated_at'', JStr ''2024-01-01T00:00:00.000Z'')]"

definition example_pack :: jv where
  "example_pack = JObj example_fields"

definition example_store :: store where
  "example_store = [(''p1'', example_pack)]"

definition accept_all :: validator where
  "accept_all v = Inr v"

definition example_row :: row where
  "example_row =
     \<lparr> r_id = ''p1'', r_idempotency_key = None, r_data = example_pack,
       r_launch_status = Some ''draft'', r_launch_requested_at = None,
       r_created_at = Some 1704067200000, r_updated_at = Some 1704067200000 \<rparr>"

definition example_cast :: date_parser where
  "example_cast s =
     (if s = ''2024-01-01T00:00:00.000Z'' then Some 1704067200000
      else if s = ''2024-01-01T00:05:00.000Z'' then Some 1704067500000
      else if s = ''2024-01-02T00:00:00.000Z'' then Some 1704153600000
      else None)"

definition example_fmt :: "int \<Rightarrow> string" where
  "example_fmt t =
     (if t = 1704067200000 then ''2024-01-01T00:00:00.000Z''
      else if t = 1704067500000 then ''2024-01-01T00:05:00.000Z''
      else ''2024-01-02T00:00:00.000Z'')"

text \<open>The text of a \<open>timestamptz\<close> in a session whose time zone is UTC, at the instants
  of \<open>example_cast\<close>.\<close>

definition example_tz_text :: "int \<Rightarrow> string" where
  "example_tz_text t =
     (if t = 1704067200000 then ''2024-01-01 00:00:00+00''
      else if t = 1704067500000 then ''2024-01-01 00:05:00+00''
      else ''2024-01-02 00:00:00+00'')"

text \<open>Format checks that accept the URLs and timestamps of the examples, and the input
  of the repository's store tests (\<open>baseInput\<close>).\<close>

definition example_formats :: formats where
  "example_formats =
     \<lparr> url_ok = (\<lambda>s. take 8 s = ''https://''),
       uuid_ok = (\<lambda>s. length s = 36),
       datetime_ok = (\<lambda>s. (length s = 20 \<or> length s = 24) \<and> s ! 10 = CHR ''T'' \<and> last s = CHR ''Z'') \<rparr>"

definition baseInput :: jv where
  "baseInput = JObj
     [(''brand'', JObj [(''name'', JStr ''Meme King''), (''ticker'', JStr ''KING''),
                       (''tagline'', JStr ''Rule the memes''),
                       (''description'', JStr ''A token for meme royalty''),
                       (''lore'', JStr ''Forged in the depths of the internet'')]),
      (''links'', JObj [(''telegram'', JStr ''https://t.me/memeking''),
                       (''x'', JStr ''https://x.com/memeking''),
                       (''website'', JStr ''https://memeking.io'')]),
      (''assets'', JObj [(''logo_url'', JStr ''https://example.com/logo.png''),
                        (''banner_url'', JStr ''https://example.com/banner.png''),
                        (''memes'', JArr [JObj [(''url'', JStr ''https://example.com/meme1.png''),
                                                (''caption'', JStr ''All hail the king'')]])]),
      (''tg'', JObj [(''chat_id'', JStr ''12345''),
                    (''pins'', JObj [(''welcome'', JStr ''Welcome to Meme King''),
                                     (''how_to_buy'', JStr ''Buy on pump.fun''),
                                     (''memekit'', JStr ''Share memes daily'')]),
                    (''schedule'', JArr [JObj [(''when'', JStr ''2024-01-01T00:00:00Z''),
                                               (''text'', JStr ''Launch party'')]])]),
      (''x'', JObj [(''main_post'', JStr ''Meme King has arrived''),
                   (''thread'', JArr [JStr ''Chapter 1'', JStr ''Chapter 2'']),
                   (''reply_bank'', JArr [JStr ''gm'', JStr ''wen moon'']),
                   (''schedule'', JArr [JObj [(''when'', JStr ''2024-01-01T01:00:00Z''),
                                              (''text'', JStr ''First post'')]])]),
      (''launch'', JObj [(''status'', JStr ''draft'')]),
      (''ops'', JObj [(''checklist'', JObj [(''copy_complete'', JBool True)]),
                     (''audit_log'', JArr [JObj [(''message'', JStr ''Drafted''),
                                                 (''at'', JStr ''2024-01-01T00:00:00Z'')]])])]"

text \<open>The patch of the test \<open>updates a launch pack checklist\<close> and the patch of the test
  \<open>patches a launch pack\<close>.\<close>

definition checklist_patch :: jv where
  "checklist_patch =
     JObj [(''ops'', JObj [(''checklist'', JObj [(''copy_complete'', JBool False), (''qa'', JBool True)])])]"

definition main_post_patch :: jv where
  "main_post_patch = JObj [(''x'', JObj [(''main_post'', JStr ''Updated'')])]"

text \<open>A record whose Telegram publish has failed, as an in-memory record and as a row.\<close>

definition failed_fields :: props where
  "failed_fields =
     [(''id'', JStr ''p2''),
      (''version'', JNum 3),
      (''tg'', JObj [(''pins'', JObj [(''welcome'', JStr ''Hi'')]), (''schedule'', JArr [])]),
      (''launch'', JObj [(''status'', JStr ''draft'')]),
      (''ops'', JObj [(''checklist'', JObj [(''tg_ready'', JBool True)]),
                     (''audit_log'', JArr []),
                     (''tg_publish_status'', JStr ''failed''),
                     (''tg_publish_attempted_at'', JStr ''2024-01-01T00:00:00.000Z''),
                     (''tg_publish_failed_at'', JStr ''2024-01-01T00:00:00.000Z''),
                     (''tg_publish_error_code'', JStr ''TG_PUBLISH_FAILED''),
                     (''tg_publish_error_message'', JStr ''Telegram sendMessage failed'')]),
      (''updated_at'', JStr ''2024-01-01T00:00:00.000Z'')]"

definition failed_store :: store where
  "failed_store = [(''p2'', JObj failed_fields)]"

definition failed_row :: row where
  "failed_row =
     \<lparr> r_id = ''p2'', r_idempotency_key = None, r_data = JObj failed_fields,
       r_launch_status = Some ''draft'', r_launch_requested_at = None,
       r_created_at = Some 1704067200000, r_updated_at = Some 1704067200000 \<rparr>"

text \<open>Two records with a due Telegram schedule entry; \<open>a\<close> was created first and
  \<open>b\<close> second, both at the instants of \<open>example_cast\<close>.\<close>

definition due_pack :: "string \<Rightarrow> string \<Rightarrow> jv" where
  "due_pack ident updated_at = JObj
     [(''id'', JStr ident),
      (''version'', JNum 1),
      (''tg'', JObj [(''pins'', JObj [(''welcome'', JStr ''Hi'')]),
                    (''schedule'', JArr [JObj [(''when'', JStr ''2024-01-01T00:00:00.000Z''),
                                               (''text'', JStr ''Launch party'')]])]),
      (''ops'', JObj [(''checklist'', JObj []), (''audit_log'', JArr [])]),
      (''updated_at'', JStr updated_at)]"

definition due_store :: store where
  "due_store = [(''a'', due_pack ''a'' ''2024-01-01T00:00:00.000Z''),
                (''b'', due_pack ''b'' ''2024-01-01T00:05:00.000Z'')]"

text \<open>A store with one record created under an idempotency key.\<close>

definition keyed_pack :: jv where
  "keyed_pack = JObj [(''id'', JStr ''k1''), (''idempotency_key'', JStr ''launch-key-1''),
                      (''version'', JNum 1), (''brand'', JObj [(''name'', JStr ''A'')])]"

definition keyed_store :: store where
  "keyed_store = [(''k1'', keyed_pack)]"



text \<open>An environment with both channels enabled and configured, a Telegram and X
  endpoint that always fails, one that always succeeds (the id of a message or post is
  100 plus the number of requests made before it), and a record ready to publish.\<close>

definition example_env :: env where
  "example_env =
     \<lparr> TG_ENABLE = Some ''true'', TG_BOT_TOKEN = Some ''token'', TG_CHAT_ID = Some ''chat123'',
       X_ENABLE = Some ''true'', X_API_KEY = Some ''key'', X_API_SECRET = Some ''secret'',
       X_ACCESS_TOKEN = Some ''token'', X_ACCESS_SECRET = Some ''access'', launchEnabled = True \<rparr>"

definition net_down :: net where
  "net_down log req = Inr \<lparr> resp_ok = False, resp_status = 500,
                             resp_json = Some (JObj [(''ok'', JBool False)]) \<rparr>"

definition net_up :: net where
  "net_up log req =
     Inr \<lparr> resp_ok = True, resp_status = 200,
           resp_json = Some (JObj
             [(''ok'', JBool True),
              (''result'', JObj [(''message_id'', JNum (100 + int (length log)))]),
              (''data'', JObj [(''id'', JStr (show_int (100 + int (length log))))])]) \<rparr>"

definition example_norm :: "jv \<Rightarrow> string option" where
  "example_norm v = (case v of JStr s \<Rightarrow> Some s | _ \<Rightarrow> None)"

definition ready_fields :: props where
  "ready_fields =
     [(''id'', JStr ''p3''),
      (''version'', JNum 1),
      (''tg'', JObj [(''pins'', JObj [(''welcome'', JStr ''Welcome!''), (''how_to_buy'', JStr ''Buy here''),
                                     (''memekit'', JStr ''Memes!'')]),
                    (''schedule'', JArr [])]),
      (''x'', JObj [(''main_post'', JStr ''MAIN''), (''thread'', JArr [JStr ''T1'', JStr ''T2'']),
                   (''schedule'', JArr [])]),
      (''launch'', JObj [(''status'', JStr ''draft'')]),
      (''ops'', JObj [(''checklist'', JObj [(''tg_ready'', JBool True), (''x_ready'', JBool True)]),
                     (''audit_log'', JArr [JObj [(''message'', JStr ''Drafted'')]])]),
      (''updated_at'', JStr ''2024-01-01T00:00:00.000Z'')]"

definition ready_store :: store where
  "ready_store = [(''p3'', JObj ready_fields)]"

text \<open>A record whose Telegram publish succeeded and whose readiness flag was cleared
  afterwards.\<close>

definition published_fields :: "bool \<Rightarrow> props" where
  "published_fields ready =
     [(''id'', JStr ''p4''),
      (''version'', JNum 3),
      (''ops'', JObj [(''checklist'', JObj [(''tg_ready'', JBool ready), (''tg_published'', JBool True)]),
                     (''audit_log'', JArr []),
                     (''tg_publish_status'', JStr ''published''),
                     (''tg_published_at'', JStr ''2024-01-01T00:00:00.000Z''),
                     (''tg_message_ids'', JArr [JStr ''101'', JStr ''102'', JStr ''103''])]),
      (''updated_at'', JStr ''2024-01-01T00:00:00.000Z'')]"

definition published_store :: "bool \<Rightarrow> store" where
  "published_store ready = [(''p4'', JObj (published_fields ready))]"

text \<open>A table with one row that was created under the idempotency key \<open>key-zero\<close>.\<close>

definition keyed_row :: row where
  "keyed_row =
     \<lparr> r_id = ''k1'', r_idempotency_key = Some ''key-zero'',
       r_data = JObj [(''id'', JStr ''k1''), (''idempotency_key'', JStr ''key-zero''),
                      (''version'', JNum 1), (''brand'', JObj [(''name'', JStr ''A'')])],
       r_launch_status = Some ''draft'', r_launch_requested_at = None,
       r_created_at = Some 1704067200000, r_updated_at = Some 1704067200000 \<rparr>"

text \<open>The two due records as rows, \<open>a\<close> updated after \<open>b\<close>.\<close>

definition due_row :: "string \<Rightarrow> string \<Rightarrow> int \<Rightarrow> row" where
  "due_row ident updated_iso updated_at =
     \<lparr> r_id = ident, r_idempotency_key = None, r_data = due_pack ident updated_iso,
       r_launch_status = Some ''draft'', r_launch_requested_at = None,
       r_created_at = Some 1704067200000, r_updated_at = Some updated_at \<rparr>"

definition due_table :: table where
  "due_table = [due_row ''a'' ''2024-01-02T00:00:00.000Z'' 1704153600000,
                due_row ''b'' ''2024-01-01T00:05:00.000Z'' 1704067500000]"

section \<open>Properties of objects and of deepMerge\<close>

lemma lookup_assign: "lookup (assign m k v) k' = (if k' = k then v else lookup m k')"
  by (induction m) auto

lemma has_key_assign: "has_key (assign m k v) k' = (k' = k \<or> has_key m k')"
  by (induction m) (auto split: if_splits)

lemma lookup_absent: "\<not> has_key m k \<Longrightarrow> lookup m k = JUndefined"
  by (induction m) auto

lemma has_key_mergeKeys: "has_key (mergeKeys base merged ps) k = (has_key merged k \<or> has_key ps k)"
  by (induction ps arbitrary: merged) (auto simp: has_key_assign)

lemma lookup_mergeKeys_other:
  "\<not> has_key ps k \<Longrightarrow> lookup (mergeKeys base merged ps) k = lookup merged k"
  by (induction ps arbitrary: merged) (auto simp: lookup_assign)

lemma lookup_mergeKeys_mentioned:
  "distinct (map fst ps) \<Longrightarrow> has_key ps k \<Longrightarrow>
   lookup (mergeKeys base merged ps) k = deepMerge (get_prop base k) (lookup ps k)"
proof (induction ps arbitrary: merged)
  case Nil
  then show ?case by simp
next
  case (Cons a ps)
  obtain k0 v0 where a: "a = (k0, v0)" by (cases a)
  show ?case
  proof (cases "k0 = k")
    case True
    have "\<not> has_key ps k" using Cons.prems(1) a True
      by (induction ps) auto
    then show ?thesis using a True by (simp add: lookup_mergeKeys_other lookup_assign)
  next
    case False
    then show ?thesis using Cons a by simp
  qed
qed

lemma digit_char_not_h: "digit_char d \<noteq> CHR ''h''"
  by (simp add: digit_char_def)

lemma last_show_nat: "last (show_nat n) = digit_char (n mod 10)"
  by (subst show_nat.simps) simp

lemma show_nat_not_length: "show_nat n \<noteq> ''length''"
proof
  assume "show_nat n = ''length''"
  then have "last (show_nat n) = CHR ''h''" by simp
  then show False using digit_char_not_h [of "n mod 10"] by (simp add: last_show_nat)
qed

lemma has_key_index_props_not_length: "\<not> has_key (index_props i xs) ''length''"
  by (induction xs arbitrary: i) (auto simp: show_nat_not_length)

lemma get_prop_spread: "has_key (spread v) k \<Longrightarrow> lookup (spread v) k = get_prop v k"
  using has_key_index_props_not_length by (cases v) auto

lemma frame_mergeKeys:
  assumes IH: "\<And>b v. has_path b ks \<Longrightarrow> untouched v ks \<Longrightarrow>
                 has_path (deepMerge b v) ks \<and> get_path (deepMerge b v) ks = get_path b ks"
    and bk: "has_path (get_prop base k) ks"
  shows "untouched_in ps k ks \<Longrightarrow> has_key merged k \<Longrightarrow>
         has_path (lookup merged k) ks \<and> get_path (lookup merged k) ks = get_path (get_prop base k) ks \<Longrightarrow>
         has_path (lookup (mergeKeys base merged ps) k) ks \<and>
         get_path (lookup (mergeKeys base merged ps) k) ks = get_path (get_prop base k) ks"
proof (induction ps arbitrary: merged)
  case Nil
  then show ?case by simp
next
  case (Cons a ps)
  obtain k0 v0 where a: "a = (k0, v0)" by (cases a)
  show ?case
  proof (cases "k0 = k")
    case True
    have u: "untouched v0 ks" and r: "untouched_in ps k ks" using Cons.prems(1) a True by auto
    have step: "has_path (deepMerge (get_prop base k) v0) ks \<and>
                get_path (deepMerge (get_prop base k) v0) ks = get_path (get_prop base k) ks"
      using IH [OF bk u] .
    show ?thesis using a True
      by (simp add: Cons.IH [OF r] has_key_assign lookup_assign step)
  next
    case False
    have r: "untouched_in ps k ks" using Cons.prems(1) a by auto
    show ?thesis using a False Cons.prems(2,3)
      by (simp add: Cons.IH [OF r] has_key_assign lookup_assign)
  qed
qed

lemma deepMerge_frame:
  "has_path base p \<Longrightarrow> untouched patch p \<Longrightarrow>
   has_path (deepMerge base patch) p \<and> get_path (deepMerge base patch) p = get_path base p"
proof (induction p arbitrary: base patch)
  case Nil
  then show ?case by (cases patch) auto
next
  case (Cons k ks)
  show ?case
  proof (cases patch)
    case (JObj ps)
    have hk: "has_key (spread base) k" and bk: "has_path (get_prop base k) ks"
      using Cons.prems(1) by auto
    have obj: "is_object base" using hk by (cases base) auto
    have u: "untouched_in ps k ks" using Cons.prems(2) JObj by simp
    have init: "has_path (lookup (spread base) k) ks \<and>
                get_path (lookup (spread base) k) ks = get_path (get_prop base k) ks"
      using bk by (simp add: get_prop_spread [OF hk])
    have "has_path (lookup (mergeKeys base (spread base) ps) k) ks \<and>
          get_path (lookup (mergeKeys base (spread base) ps) k) ks = get_path (get_prop base k) ks"
      using frame_mergeKeys [OF Cons.IH bk u hk init] by simp
    then show ?thesis using JObj obj hk by (simp add: has_key_mergeKeys)
  qed (use Cons.prems in auto)
qed

lemma nulled_untouched: "nulled patch p \<Longrightarrow> untouched patch p"
proof (induction patch p rule: nulled.induct)
  case (1 v)
  then show ?case by (cases v) auto
next
  case (2 ps k ks)
  have "\<And>qs. distinct (map fst qs) \<Longrightarrow> has_key qs k \<Longrightarrow> untouched (lookup qs k) ks \<Longrightarrow> untouched_in qs k ks"
  proof -
    fix qs show "distinct (map fst qs) \<Longrightarrow> has_key qs k \<Longrightarrow> untouched (lookup qs k) ks \<Longrightarrow> untouched_in qs k ks"
    proof (induction qs)
      case Nil then show ?case by simp
    next
      case (Cons a qs)
      obtain k0 v0 where a: "a = (k0, v0)" by (cases a)
      have nk: "\<And>rs. \<not> has_key rs k \<Longrightarrow> untouched_in rs k ks"
      proof -
        fix rs show "\<not> has_key rs k \<Longrightarrow> untouched_in rs k ks" by (induction rs) auto
      qed
      have hk: "\<And>rs. k \<notin> fst ` set rs \<Longrightarrow> \<not> has_key rs k"
      proof -
        fix rs show "k \<notin> fst ` set rs \<Longrightarrow> \<not> has_key rs k" by (induction rs) auto
      qed
      show ?case using Cons a nk hk by (cases "k0 = k") auto
    qed
  qed
  then show ?case using 2 by simp
qed auto

lemma deepMerge_object:
  "untouched patch (k # ks) \<Longrightarrow> \<exists>m. deepMerge (JObj bs) patch = JObj m"
  by (cases patch) auto

lemma update_frame:
  assumes ex: "lookup st ident = JObj bs"
    and v: "validate patch = Inr parsed"
    and hp: "has_path (JObj bs) (k # ks)"
    and un: "untouched parsed (k # ks)"
    and k: "k \<noteq> ''id''" "k \<noteq> ''updated_at''" "k \<noteq> ''version''"
  shows "\<exists>merged. update validate now_iso ident patch st = (Inr merged, assign st ident merged)
           \<and> lookup (assign st ident merged) ident = merged
           \<and> has_path merged (k # ks)
           \<and> get_path merged (k # ks) = get_path (JObj bs) (k # ks)"
proof -
  obtain m where m: "deepMerge (JObj bs) parsed = JObj m"
    using deepMerge_object [OF un] by blast
  have fr: "has_path (JObj m) (k # ks) \<and> get_path (JObj m) (k # ks) = get_path (JObj bs) (k # ks)"
    using deepMerge_frame [OF hp un] m by simp
  then show ?thesis using ex v m k
    by (simp add: update_def Let_def lookup_assign has_key_assign)
qed


section \<open>What update does with the parsed patch\<close>

text \<open>
  \<open>deepMerge\<close> replaces by an array or a scalar of the patch wholesale and merges two
  objects key by key; a field of the base that the patch given to it does not touch is
  present and unchanged in the result, at every depth.  \<open>update\<close> applies it to the
  stored record and the parsed patch and then stamps \<open>id\<close>, \<open>updated_at\<close> and \<open>version\<close>:
  a key that the parsed patch gives has the merged value in the persisted record, and a
  field that the parsed patch does not touch keeps its value.
\<close>

lemma update_mentioned:
  assumes ex: "lookup st ident = JObj bs"
    and v: "validate patch = Inr (JObj ps)"
    and d: "distinct (map fst ps)"
    and k: "has_key ps k" "k \<noteq> ''id''" "k \<noteq> ''updated_at''" "k \<noteq> ''version''"
  shows "\<exists>merged. update validate now_iso ident patch st = (Inr merged, assign st ident merged)
           \<and> get_prop merged k = deepMerge (lookup bs k) (lookup ps k)"
  using ex v k lookup_mergeKeys_mentioned [OF d k(1), of "JObj bs" bs]
  by (simp add: update_def Let_def lookup_assign)

lemma update_merges_parsed_patch:
  "deepMerge base (JArr xs) = JArr xs \<and> deepMerge base (JBool b) = JBool b
   \<and> deepMerge base (JNum n) = JNum n \<and> deepMerge base (JStr s) = JStr s
   \<and> (distinct (map fst ps) \<longrightarrow>
        get_prop (deepMerge (JObj bs) (JObj ps)) key =
          (if has_key ps key then deepMerge (lookup bs key) (lookup ps key) else lookup bs key))
   \<and> (has_path base p \<and> untouched patch p \<longrightarrow>
        has_path (deepMerge base patch) p \<and> get_path (deepMerge base patch) p = get_path base p)
   \<and> (lookup st ident = JObj bs \<and> validate patch = Inr parsed \<and> has_path (JObj bs) (k # ks)
        \<and> untouched parsed (k # ks) \<and> k \<notin> {''id'', ''updated_at'', ''version''} \<longrightarrow>
        (\<exists>merged. update validate now_iso ident patch st = (Inr merged, assign st ident merged)
           \<and> store_get ident (assign st ident merged) = Some merged
           \<and> has_path merged (k # ks)
           \<and> get_path merged (k # ks) = get_path (JObj bs) (k # ks)))"
proof -
  have a: "distinct (map fst ps) \<longrightarrow>
        get_prop (deepMerge (JObj bs) (JObj ps)) key =
          (if has_key ps key then deepMerge (lookup bs key) (lookup ps key) else lookup bs key)"
    using lookup_mergeKeys_mentioned [of ps key "JObj bs" bs]
      lookup_mergeKeys_other [of ps key "JObj bs" bs] by simp
  have b: "has_path base p \<and> untouched patch p \<longrightarrow>
        has_path (deepMerge base patch) p \<and> get_path (deepMerge base patch) p = get_path base p"
    using deepMerge_frame by blast
  have c: "lookup st ident = JObj bs \<and> validate patch = Inr parsed \<and> has_path (JObj bs) (k # ks)
        \<and> untouched parsed (k # ks) \<and> k \<notin> {''id'', ''updated_at'', ''version''} \<longrightarrow>
        (\<exists>merged. update validate now_iso ident patch st = (Inr merged, assign st ident merged)
           \<and> store_get ident (assign st ident merged) = Some merged
           \<and> has_path merged (k # ks)
           \<and> get_path merged (k # ks) = get_path (JObj bs) (k # ks))"
  proof (intro impI, elim conjE)
    assume h: "lookup st ident = JObj bs" "validate patch = Inr parsed" "has_path (JObj bs) (k # ks)"
      "untouched parsed (k # ks)" "k \<notin> {''id'', ''updated_at'', ''version''}"
    from h(5) have k: "k \<noteq> ''id''" "k \<noteq> ''updated_at''" "k \<noteq> ''version''" by auto
    obtain merged where mm: "update validate now_iso ident patch st = (Inr merged, assign st ident merged)"
      "lookup (assign st ident merged) ident = merged" "has_path merged (k # ks)"
      "get_path merged (k # ks) = get_path (JObj bs) (k # ks)"
      using update_frame [of st ident bs validate patch parsed k ks now_iso] h(1-4) k by blast
    have "is_object merged" using mm(3) by (cases merged) auto
    then have "truthy merged" by (cases merged) auto
    then show "\<exists>merged. update validate now_iso ident patch st = (Inr merged, assign st ident merged)
           \<and> store_get ident (assign st ident merged) = Some merged
           \<and> has_path merged (k # ks)
           \<and> get_path merged (k # ks) = get_path (JObj bs) (k # ks)"
      using mm by (auto simp: store_get_def)
  qed
  show ?thesis using a b c by simp
qed


section \<open>C10: a null or undefined patch never clears a stored value\<close>

text \<open>
  Claim C10.  \<open>deepMerge(b, null) = b\<close> and \<open>deepMerge(b, undefined) = b\<close> for every base
  \<open>b\<close>; hence a patch field set explicitly to \<open>null\<close> leaves the stored value of an
  existing field intact, in \<open>deepMerge\<close> at every depth and in the record persisted by
  the in-memory \<open>update\<close>.
\<close>
theorem deepMerge_null_patch_keeps_base:
  "deepMerge b JNull = b \<and> deepMerge b JUndefined = b
   \<and> (has_path base p \<and> nulled patch p \<longrightarrow>
        has_path (deepMerge base patch) p \<and> get_path (deepMerge base patch) p = get_path base p)
   \<and> (lookup st ident = JObj bs \<and> validate patch = Inr parsed \<and> has_path (JObj bs) (k # ks)
        \<and> nulled parsed (k # ks) \<and> k \<notin> {''id'', ''updated_at'', ''version''} \<longrightarrow>
        (\<exists>merged. update validate now_iso ident patch st = (Inr merged, assign st ident merged)
           \<and> get_path merged (k # ks) = get_path (JObj bs) (k # ks)))"
proof -
  have b: "has_path base p \<and> nulled patch p \<longrightarrow>
        has_path (deepMerge base patch) p \<and> get_path (deepMerge base patch) p = get_path base p"
    using deepMerge_frame nulled_untouched by blast
  have c: "lookup st ident = JObj bs \<and> validate patch = Inr parsed \<and> has_path (JObj bs) (k # ks)
        \<and> nulled parsed (k # ks) \<and> k \<notin> {''id'', ''updated_at'', ''version''} \<longrightarrow>
        (\<exists>merged. update validate now_iso ident patch st = (Inr merged, assign st ident merged)
           \<and> get_path merged (k # ks) = get_path (JObj bs) (k # ks))"
  proof (intro impI, elim conjE)
    assume h: "lookup st ident = JObj bs" "validate patch = Inr parsed" "has_path (JObj bs) (k # ks)"
      "nulled parsed (k # ks)" "k \<notin> {''id'', ''updated_at'', ''version''}"
    from h(5) have k: "k \<noteq> ''id''" "k \<noteq> ''updated_at''" "k \<noteq> ''version''" by auto
    show "\<exists>merged. update validate now_iso ident patch st = (Inr merged, assign st ident merged)
           \<and> get_path merged (k # ks) = get_path (JObj bs) (k # ks)"
      using update_frame [of st ident bs validate patch parsed k ks now_iso] h(1-3)
        nulled_untouched [OF h(4)] k by blast
  qed
  show ?thesis using b c by simp
qed

theorem deepMerge_null_patch_keeps_base_witness:
  "has_path example_pack [''ops'', ''tg_publish_error_code'']
   \<and> nulled (JObj [(''ops'', JObj [(''tg_publish_error_code'', JNull)])]) [''ops'', ''tg_publish_error_code'']
   \<and> get_path (deepMerge example_pack (JObj [(''ops'', JObj [(''tg_publish_error_code'', JNull)])]))
         [''ops'', ''tg_publish_error_code''] = JStr ''TG_PUBLISH_FAILED''"
proof -
  let ?patch = "JObj [(''ops'', JObj [(''tg_publish_error_code'', JNull)])]"
  have h2: "has_path example_pack [''ops'', ''tg_publish_error_code'']"
    by (simp add: example_pack_def example_fields_def)
  have h3: "nulled ?patch [''ops'', ''tg_publish_error_code'']"
    by simp
  have v: "get_path example_pack [''ops'', ''tg_publish_error_code''] = JStr ''TG_PUBLISH_FAILED''"
    by (simp add: example_pack_def example_fields_def)
  note T = deepMerge_null_patch_keeps_base [where base = example_pack and patch = ?patch
      and p = "[''ops'', ''tg_publish_error_code'']"]
  from T h2 h3 have
    "get_path (deepMerge example_pack ?patch) [''ops'', ''tg_publish_error_code'']
       = get_path example_pack [''ops'', ''tg_publish_error_code'']"
    by blast
  then show ?thesis using h2 h3 v by simp
qed



section \<open>C1: claimLaunch has a single winner\<close>




















section \<open>C3: the version counter\<close>

text \<open>
  Claim C3 says that every successful mutation, the claims included, raises \<open>version\<close>
  by exactly one.  The in-memory store does so in \<open>update\<close> and in every claim, and so
  does \<open>update\<close> of \<open>LaunchPackRepository\<close>; its \<open>claimLaunch\<close> statement rewrites only
  \<open>launch.requested_at\<close> and \<open>launch.status\<close> of the document.  Here \<open>claimLaunch\<close>
  succeeds on a fresh draft row of version 1: the returned and the persisted record
  still carry version 1, while the in-memory \<open>claimLaunch\<close> on the same record returns
  version 2, as does an \<open>update\<close> of the same row.
\<close>

theorem sql_claim_keeps_version:
  "get_prop (r_data example_row) ''version'' = JNum 1
   \<and> example_store = [(''p1'', r_data example_row)]
   \<and> (case claimLaunch_sql example_cast example_tz_text example_fmt 1704153600000 ''p1''
             ''2024-01-02T00:00:00.000Z'' ''ready'' [example_row] of
        (res, tbl') \<Rightarrow>
          map_sum id (map_option (\<lambda>p. (get_path p [''launch'', ''status''], get_prop p ''version''))) res
            = Inr (Some (JStr ''ready'', JNum 1))
          \<and> map (\<lambda>r. (r_launch_status r, get_prop (r_data r) ''version'')) tbl'
              = [(Some ''ready'', JNum 1)])
   \<and> (case claimLaunch ''2024-01-02T00:00:00.000Z'' ''p1'' ''2024-01-02T00:00:00.000Z'' ''ready''
             example_store of
        (res, st') \<Rightarrow>
          map_option (\<lambda>p. (get_path p [''launch'', ''status''], get_prop p ''version'')) res
            = Some (JStr ''ready'', JNum 2)
          \<and> map (\<lambda>p. get_prop p ''version'') (map snd st') = [JNum 2])
   \<and> (case update_sql accept_all ''2024-01-02T00:00:00.000Z'' example_cast example_fmt ''p1''
             (JObj []) [example_row] of
        (res, tbl') \<Rightarrow>
          map_sum id (\<lambda>p. get_prop p ''version'') res = Inr (JNum 2)
          \<and> map (\<lambda>r. get_prop (r_data r) ''version'') tbl' = [JNum 2])"
  by code_simp


section \<open>C4: the publish claims\<close>

lemma claimPublish_sql_rejected:
  "claimPublish_sql key cast fmt now ident requested_at force tbl = (Inl polymorphic_error, tbl)"
  by (simp add: claimPublish_sql_def)

lemma sql_publish_claim_examples:
  "get_path (r_data example_row) [''ops'', ''tg_publish_status''] = JUndefined
   \<and> claimTelegramPublish_sql example_cast example_fmt 1704153600000 ''p1''
        ''2024-01-02T00:00:00.000Z'' False [example_row] = (Inl polymorphic_error, [example_row])
   \<and> example_store = [(''p1'', r_data example_row)]
   \<and> (case claimTelegramPublish example_cast ''2024-01-02T00:00:00.000Z'' 1704153600000 ''p1''
             ''2024-01-02T00:00:00.000Z'' False example_store of
        (res, st') \<Rightarrow>
          map_option (\<lambda>p. map (\<lambda>k. get_path p [''ops'', k])
                             [''tg_publish_status'', ''tg_publish_attempted_at'',
                              ''tg_publish_error_code'', ''tg_publish_error_message'']) res
            = Some [JStr ''in_progress'', JStr ''2024-01-02T00:00:00.000Z'', JUndefined, JUndefined]
          \<and> map fst st' = [''p1''] \<and> map snd st' = [the res])
   \<and> get_path (r_data failed_row) [''ops'', ''tg_publish_status''] = JStr ''failed''
   \<and> claimTelegramPublish_sql example_cast example_fmt 1704153600000 ''p2''
        ''2024-01-02T00:00:00.000Z'' True [failed_row] = (Inl polymorphic_error, [failed_row])
   \<and> failed_store = [(''p2'', r_data failed_row)]
   \<and> (case claimTelegramPublish example_cast ''2024-01-02T00:00:00.000Z'' 1704153600000 ''p2''
             ''2024-01-02T00:00:00.000Z'' True failed_store of
        (res, st') \<Rightarrow>
          map_option (\<lambda>p. map (\<lambda>k. get_path p [''ops'', k])
                             [''tg_publish_status'', ''tg_publish_attempted_at'',
                              ''tg_publish_error_code'', ''tg_publish_error_message'']) res
            = Some [JStr ''in_progress'', JStr ''2024-01-02T00:00:00.000Z'', JUndefined, JUndefined])"
  by code_simp

text \<open>
  Claim C4 says that a publish claim succeeds from \<open>idle\<close>, and from \<open>failed\<close> when
  forced or after the cooldown, and then sets the status to \<open>in_progress\<close>, records
  \<open>attempted_at\<close> and clears both error fields.  The in-memory store does.  The
  statement of \<open>LaunchPackRepository.claimTelegramPublish\<close> and \<open>claimXPublish\<close> calls
  \<open>to_jsonb('in_progress')\<close> on a string literal without a cast, so it is rejected when
  it is analysed: the claim raises on every call, whatever the table, the id and the
  options, and no row is changed.  Here an idle record and a failed record claimed
  with \<open>force\<close>: the SQL claim raises and leaves the row as it was, the in-memory claim
  on the same record succeeds.
\<close>

theorem sql_publish_claim_is_rejected:
  "claimTelegramPublish_sql cast fmt now ident requested_at force tbl = (Inl polymorphic_error, tbl)
   \<and> claimXPublish_sql cast fmt now ident requested_at force tbl = (Inl polymorphic_error, tbl)
   \<and> err_code polymorphic_error = Some ''42804''
   \<and> get_path (r_data example_row) [''ops'', ''tg_publish_status''] = JUndefined
   \<and> claimTelegramPublish_sql example_cast example_fmt 1704153600000 ''p1''
        ''2024-01-02T00:00:00.000Z'' False [example_row] = (Inl polymorphic_error, [example_row])
   \<and> example_store = [(''p1'', r_data example_row)]
   \<and> (case claimTelegramPublish example_cast ''2024-01-02T00:00:00.000Z'' 1704153600000 ''p1''
             ''2024-01-02T00:00:00.000Z'' False example_store of
        (res, st') \<Rightarrow>
          map_option (\<lambda>p. map (\<lambda>k. get_path p [''ops'', k])
                             [''tg_publish_status'', ''tg_publish_attempted_at'',
                              ''tg_publish_error_code'', ''tg_publish_error_message'']) res
            = Some [JStr ''in_progress'', JStr ''2024-01-02T00:00:00.000Z'', JUndefined, JUndefined]
          \<and> map fst st' = [''p1''] \<and> map snd st' = [the res])
   \<and> get_path (r_data failed_row) [''ops'', ''tg_publish_status''] = JStr ''failed''
   \<and> claimTelegramPublish_sql example_cast example_fmt 1704153600000 ''p2''
        ''2024-01-02T00:00:00.000Z'' True [failed_row] = (Inl polymorphic_error, [failed_row])
   \<and> failed_store = [(''p2'', r_data failed_row)]
   \<and> (case claimTelegramPublish example_cast ''2024-01-02T00:00:00.000Z'' 1704153600000 ''p2''
             ''2024-01-02T00:00:00.000Z'' True failed_store of
        (res, st') \<Rightarrow>
          map_option (\<lambda>p. map (\<lambda>k. get_path p [''ops'', k])
                             [''tg_publish_status'', ''tg_publish_attempted_at'',
                              ''tg_publish_error_code'', ''tg_publish_error_message'']) res
            = Some [JStr ''in_progress'', JStr ''2024-01-02T00:00:00.000Z'', JUndefined, JUndefined])"
proof -
  have a: "claimTelegramPublish_sql cast fmt now ident requested_at force tbl = (Inl polymorphic_error, tbl)"
    by (simp add: claimTelegramPublish_sql_def claimPublish_sql_rejected)
  have b: "claimXPublish_sql cast fmt now ident requested_at force tbl = (Inl polymorphic_error, tbl)"
    by (simp add: claimXPublish_sql_def claimPublish_sql_rejected)
  have c: "err_code polymorphic_error = Some ''42804''"
    by (simp add: polymorphic_error_def)
  show ?thesis using a b c sql_publish_claim_examples by (intro conjI) simp_all
qed


section \<open>C8: the due scans\<close>

text \<open>
  Claim C8 says that the due scans return the due records ordered by last update,
  oldest first, cut to \<open>limit\<close>.  The SQL query orders by \<open>updated_at\<close>; the in-memory
  scan walks the map in insertion order and stops at \<open>limit\<close>.  Here \<open>a\<close> was inserted
  before \<open>b\<close> and is then updated, so \<open>a\<close> is the more recently updated record: the
  scan returns \<open>a\<close> before \<open>b\<close>, and with \<open>limit = 1\<close> it returns \<open>a\<close> alone, not
  the older \<open>b\<close>.  The SQL query on the same two records returns \<open>b\<close> before \<open>a\<close>,
  and \<open>b\<close> alone with \<open>limit = 1\<close>.
\<close>

theorem inmemory_due_scan_in_insertion_order:
  "(case update accept_all ''2024-01-02T00:00:00.000Z'' ''a'' (JObj []) due_store of
      (r, st') \<Rightarrow>
        map_sum id (\<lambda>a'. get_prop a' ''id'') r = Inr (JStr ''a'')
        \<and> map (\<lambda>p. date_ms example_cast (get_prop p ''updated_at'')) (map snd st')
             = [Some 1704153600000, Some 1704067500000]
        \<and> map (\<lambda>p. get_prop p ''id'')
              (findDueTelegramPublishes example_cast ''2024-01-02T00:00:00.000Z'' 10 st')
             = [JStr ''a'', JStr ''b'']
        \<and> map (\<lambda>p. get_prop p ''id'')
              (findDueTelegramPublishes example_cast ''2024-01-02T00:00:00.000Z'' 1 st')
             = [JStr ''a''])
   \<and> map r_updated_at due_table = [Some 1704153600000, Some 1704067500000]
   \<and> map_option (map (\<lambda>p. get_prop p ''id''))
         (findDueTelegramPublishes_sql example_cast example_fmt ''2024-01-02T00:00:00.000Z'' 10 due_table)
        = Some [JStr ''b'', JStr ''a'']
   \<and> map_option (map (\<lambda>p. get_prop p ''id''))
         (findDueTelegramPublishes_sql example_cast example_fmt ''2024-01-02T00:00:00.000Z'' 1 due_table)
        = Some [JStr ''b'']"
  by code_simp


section \<open>The in-memory create and the idempotency key\<close>

lemma find_idempotent_Some:
  "find_idempotent vs key = Some v \<Longrightarrow> v \<in> set vs \<and> strict_eq (get_prop v ''idempotency_key'') key"
  by (induction vs) (auto split: if_splits)

lemma find_idempotent_exists:
  "\<exists>v \<in> set vs. strict_eq (get_prop v ''idempotency_key'') key \<Longrightarrow> \<exists>v. find_idempotent vs key = Some v"
  by (induction vs) auto

lemma find_idempotent_assign:
  "\<forall>v \<in> set (map snd st). \<not> strict_eq (get_prop v ''idempotency_key'') key \<Longrightarrow>
   strict_eq (get_prop r ''idempotency_key'') key \<Longrightarrow>
   find_idempotent (map snd (assign st i r)) key = Some r"
  by (induction st) auto

lemma find_idempotent_None:
  "\<forall>v \<in> set vs. \<not> strict_eq (get_prop v ''idempotency_key'') key \<Longrightarrow> find_idempotent vs key = None"
  by (induction vs) auto

lemma count_assign:
  "\<forall>v \<in> set (map snd st). \<not> P v \<Longrightarrow> P r \<Longrightarrow> length (filter P (map snd (assign st i r))) = 1"
  by (induction st) auto

lemma lookup_assigns_other:
  "\<not> has_key kvs k \<Longrightarrow> lookup (assigns obj kvs) k = lookup obj k"
  by (induction kvs arbitrary: obj) (auto simp: lookup_assign)

lemma create_existing:
  assumes v: "validate input = Inr parsed"
    and t: "truthy (get_prop parsed ''idempotency_key'')"
    and ex: "\<exists>v \<in> set (map snd st). strict_eq (get_prop v ''idempotency_key'') (get_prop parsed ''idempotency_key'')"
  shows "\<exists>hit. create validate uuid now_iso input st = (Inr hit, st)
           \<and> hit \<in> set (map snd st)
           \<and> get_prop hit ''idempotency_key'' = get_prop parsed ''idempotency_key''"
proof -
  obtain hit where f: "find_idempotent (map snd st) (get_prop parsed ''idempotency_key'') = Some hit"
    using find_idempotent_exists [OF ex] by blast
  have "hit \<in> set (map snd st) \<and> strict_eq (get_prop hit ''idempotency_key'') (get_prop parsed ''idempotency_key'')"
    using find_idempotent_Some [OF f] .
  then show ?thesis using v t f by (simp add: create_def Let_def strict_eq_def)
qed

lemma create_fresh:
  assumes v: "validate input = Inr (JObj ps)"
    and k: "lookup ps ''idempotency_key'' = JStr k" "k \<noteq> []"
    and fresh: "\<forall>v \<in> set (map snd st). get_prop v ''idempotency_key'' \<noteq> JStr k"
  shows "\<exists>record ident. create validate uuid now_iso input st = (Inr record, assign st ident record)
           \<and> get_prop record ''id'' = JStr ident
           \<and> get_prop record ''idempotency_key'' = JStr k"
proof -
  have n: "find_idempotent (map snd st) (JStr k) = None"
    using fresh by (intro find_idempotent_None) (auto simp: strict_eq_def)
  show ?thesis using v k n
    by (simp add: create_def Let_def lookup_assign)
qed

text \<open>
  When the (validated) input carries an idempotency key that a stored LaunchPack
  already has, the in-memory \<open>create\<close> returns that stored record and writes nothing.
  Hence two creates with the same key, whatever the rest of their inputs, return the
  same record, the second leaves the store as the first left it, and the store holds
  exactly one record with that key.
\<close>

lemma create_idempotent_inmemory:
  "(validate input = Inr parsed \<and> truthy (get_prop parsed ''idempotency_key'')
      \<and> (\<exists>v \<in> set (map snd st).
            strict_eq (get_prop v ''idempotency_key'') (get_prop parsed ''idempotency_key'')) \<longrightarrow>
      (\<exists>hit. create validate uuid now_iso input st = (Inr hit, st)
         \<and> hit \<in> set (map snd st)
         \<and> get_prop hit ''idempotency_key'' = get_prop parsed ''idempotency_key''))
   \<and> (validate input1 = Inr (JObj p1) \<and> validate input2 = Inr p2
        \<and> lookup p1 ''idempotency_key'' = JStr k \<and> get_prop p2 ''idempotency_key'' = JStr k
        \<and> k \<noteq> [] \<and> (\<forall>v \<in> set (map snd st). get_prop v ''idempotency_key'' \<noteq> JStr k) \<longrightarrow>
      (\<exists>created st1. create validate uuid1 now1 input1 st = (Inr created, st1)
         \<and> create validate uuid2 now2 input2 st1 = (Inr created, st1)
         \<and> get_prop created ''idempotency_key'' = JStr k
         \<and> length (filter (\<lambda>v. get_prop v ''idempotency_key'' = JStr k) (map snd st1)) = 1))"
  (is "?A \<and> ?B")
proof
  show ?A using create_existing [of validate input parsed st uuid now_iso] by blast
next
  show ?B
  proof (intro impI, elim conjE)
    assume v1: "validate input1 = Inr (JObj p1)" and v2: "validate input2 = Inr p2"
      and k1: "lookup p1 ''idempotency_key'' = JStr k" and k2: "get_prop p2 ''idempotency_key'' = JStr k"
      and ne: "k \<noteq> []" and fresh: "\<forall>v \<in> set (map snd st). get_prop v ''idempotency_key'' \<noteq> JStr k"
    obtain created ident where c1: "create validate uuid1 now1 input1 st = (Inr created, assign st ident created)"
      and rk: "get_prop created ''idempotency_key'' = JStr k"
      using create_fresh [of validate input1 p1 k st uuid1 now1] v1 k1 ne fresh by blast
    have nf: "\<forall>v \<in> set (map snd st). \<not> strict_eq (get_prop v ''idempotency_key'') (JStr k)"
      using fresh by (auto simp: strict_eq_def)
    have rs: "strict_eq (get_prop created ''idempotency_key'') (JStr k)"
      using rk by (simp add: strict_eq_def)
    have f: "find_idempotent (map snd (assign st ident created)) (JStr k) = Some created"
      using find_idempotent_assign [OF nf rs] .
    have c2: "create validate uuid2 now2 input2 (assign st ident created) = (Inr created, assign st ident created)"
      using v2 k2 ne f by (simp add: create_def Let_def)
    have cnt: "length (filter (\<lambda>v. get_prop v ''idempotency_key'' = JStr k)
                 (map snd (assign st ident created))) = 1"
      using count_assign [of st "\<lambda>v. get_prop v ''idempotency_key'' = JStr k" created ident] fresh rk
      by simp
    show "\<exists>created st1. create validate uuid1 now1 input1 st = (Inr created, st1)
         \<and> create validate uuid2 now2 input2 st1 = (Inr created, st1)
         \<and> get_prop created ''idempotency_key'' = JStr k
         \<and> length (filter (\<lambda>v. get_prop v ''idempotency_key'' = JStr k) (map snd st1)) = 1"
      using c1 c2 rk cnt by blast
  qed
qed

lemma create_idempotent_inmemory_example:
  "accept_all (JObj [(''idempotency_key'', JStr ''launch-key-1''), (''brand'', JObj [(''name'', JStr ''B'')])])
     = Inr (JObj [(''idempotency_key'', JStr ''launch-key-1''), (''brand'', JObj [(''name'', JStr ''B'')])])
   \<and> strict_eq (get_prop keyed_pack ''idempotency_key'') (JStr ''launch-key-1'')
   \<and> (\<exists>hit. create accept_all ''u3'' ''2024-01-02T00:00:00.000Z''
           (JObj [(''idempotency_key'', JStr ''launch-key-1''), (''brand'', JObj [(''name'', JStr ''B'')])])
           keyed_store = (Inr hit, keyed_store) \<and> hit \<in> set (map snd keyed_store))
   \<and> get_prop example_pack ''idempotency_key'' = JUndefined
   \<and> (\<exists>created st1.
         create accept_all ''u1'' ''2024-01-01T00:00:00.000Z''
           (JObj [(''idempotency_key'', JStr ''launch-key-1''), (''brand'', JObj [(''name'', JStr ''A'')])])
           example_store = (Inr created, st1)
       \<and> create accept_all ''u2'' ''2024-01-02T00:00:00.000Z''
           (JObj [(''idempotency_key'', JStr ''launch-key-1''), (''brand'', JObj [(''name'', JStr ''B'')])])
           st1 = (Inr created, st1)
       \<and> length (filter (\<lambda>v. get_prop v ''idempotency_key'' = JStr ''launch-key-1'') (map snd st1)) = 1)"
proof -
  let ?p1 = "[(''idempotency_key'', JStr ''launch-key-1''), (''brand'', JObj [(''name'', JStr ''A'')])]"
  let ?i1 = "JObj ?p1"
  let ?i2 = "JObj [(''idempotency_key'', JStr ''launch-key-1''), (''brand'', JObj [(''name'', JStr ''B'')])]"
  have h1: "accept_all ?i1 = Inr ?i1" and h2: "accept_all ?i2 = Inr ?i2"
    by (simp_all add: accept_all_def)
  have h4: "lookup ?p1 ''idempotency_key'' = JStr ''launch-key-1''" by simp
  have h5: "get_prop ?i2 ''idempotency_key'' = JStr ''launch-key-1''" by simp
  have h6: "''launch-key-1'' \<noteq> []" by simp
  have h7: "\<forall>v \<in> set (map snd example_store). get_prop v ''idempotency_key'' \<noteq> JStr ''launch-key-1''"
    by (simp add: example_store_def example_pack_def example_fields_def)
  have t: "truthy (get_prop ?i2 ''idempotency_key'')" by simp
  have ex: "\<exists>v \<in> set (map snd keyed_store).
              strict_eq (get_prop v ''idempotency_key'') (get_prop ?i2 ''idempotency_key'')"
    by (simp add: keyed_store_def keyed_pack_def strict_eq_def)
  note T1 = create_idempotent_inmemory [where validate = accept_all and input = ?i2 and parsed = ?i2
        and st = keyed_store and uuid = "''u3''" and now_iso = "''2024-01-02T00:00:00.000Z''",
        THEN conjunct1, rule_format, OF conjI [OF h2 conjI [OF t ex]]]
  note T2 = create_idempotent_inmemory [where validate = accept_all and ?input1.0 = ?i1 and ?input2.0 = ?i2
        and ?p1.0 = ?p1 and ?p2.0 = ?i2 and k = "''launch-key-1''" and st = example_store
        and ?uuid1.0 = "''u1''" and ?now1.0 = "''2024-01-01T00:00:00.000Z''" and ?uuid2.0 = "''u2''"
        and ?now2.0 = "''2024-01-02T00:00:00.000Z''",
        THEN conjunct2, rule_format,
        OF conjI [OF h1 conjI [OF h2 conjI [OF h4 conjI [OF h5 conjI [OF h6 h7]]]]]]
  have A: "\<exists>hit. create accept_all ''u3'' ''2024-01-02T00:00:00.000Z'' ?i2 keyed_store = (Inr hit, keyed_store)
             \<and> hit \<in> set (map snd keyed_store)"
    using T1 by blast
  have B: "\<exists>created st1.
         create accept_all ''u1'' ''2024-01-01T00:00:00.000Z'' ?i1 example_store = (Inr created, st1)
       \<and> create accept_all ''u2'' ''2024-01-02T00:00:00.000Z'' ?i2 st1 = (Inr created, st1)
       \<and> length (filter (\<lambda>v. get_prop v ''idempotency_key'' = JStr ''launch-key-1'') (map snd st1)) = 1"
    using T2 by blast
  have ex': "strict_eq (get_prop keyed_pack ''idempotency_key'') (JStr ''launch-key-1'')"
    by (simp add: keyed_pack_def strict_eq_def)
  have h7': "get_prop example_pack ''idempotency_key'' = JUndefined"
    by (simp add: example_pack_def example_fields_def)
  show ?thesis using h2 ex' A h7' B by (intro conjI)
qed


section \<open>C9: provisioning the launcher wallet\<close>



text \<open>The total timer has no effect: with the connect timeout of 10 seconds, every
  total timeout above it gives the same result.\<close>

lemma total_timeout_inert:
  "LOGO_FETCH_CONNECT_TIMEOUT_MS < total_ms \<Longrightarrow>
   fetchWithTimeout outcome total_ms LOGO_FETCH_CONNECT_TIMEOUT_MS
     = fetchWithTimeout outcome LOGO_FETCH_TOTAL_TIMEOUT_MS LOGO_FETCH_CONNECT_TIMEOUT_MS"
  by (cases outcome)
     (simp_all add: fetchWithTimeout_def timeout_error_def LOGO_FETCH_TOTAL_TIMEOUT_MS_def
        LOGO_FETCH_CONNECT_TIMEOUT_MS_def)







section \<open>C2: failures after a successful claim\<close>

text \<open>
  Claim C2 says that every orchestrator, when a step fails after its claim succeeded,
  persists the \<open>failed\<close> state with the error code and message and appends an audit
  entry before it re-raises.  \<open>PumpLauncherService.launch\<close> does; the \<open>catch\<close> branches
  of the Telegram and X publishers persist status, code and message but append nothing
  to the audit log.  Here the remote endpoint answers every request with status 500:
  after the failed Telegram and X publishes the record is \<open>failed\<close> with code and
  message and its audit log is the one it had before, while the failed launch on the
  same record has appended its \<open>Launch failed: ...\<close> entry.
\<close>

theorem publish_failure_without_audit_entry:
  "fst (tg_publish accept_all array_items example_norm example_cast net_down example_env
         ''2024-01-02T00:00:00.000Z'' 1704153600000 ''p3'' False ready_store [])
     = Inl (errorWithCode ''TG_PUBLISH_FAILED'' ''Telegram sendMessage failed'' JUndefined)
   \<and> get_path (lookup (fst (snd (tg_publish accept_all array_items example_norm example_cast net_down
         example_env ''2024-01-02T00:00:00.000Z'' 1704153600000 ''p3'' False ready_store []))) ''p3'')
         [''ops'', ''tg_publish_status''] = JStr ''failed''
   \<and> get_path (lookup (fst (snd (tg_publish accept_all array_items example_norm example_cast net_down
         example_env ''2024-01-02T00:00:00.000Z'' 1704153600000 ''p3'' False ready_store []))) ''p3'')
         [''ops'', ''tg_publish_error_code''] = JStr ''TG_PUBLISH_FAILED''
   \<and> get_path (lookup (fst (snd (tg_publish accept_all array_items example_norm example_cast net_down
         example_env ''2024-01-02T00:00:00.000Z'' 1704153600000 ''p3'' False ready_store []))) ''p3'')
         [''ops'', ''tg_publish_error_message''] = JStr ''Telegram sendMessage failed''
   \<and> get_path (lookup ready_store ''p3'') [''ops'', ''audit_log'']
         = JArr [JObj [(''message'', JStr ''Drafted'')]]
   \<and> get_path (lookup (fst (snd (tg_publish accept_all array_items example_norm example_cast net_down
         example_env ''2024-01-02T00:00:00.000Z'' 1704153600000 ''p3'' False ready_store []))) ''p3'')
         [''ops'', ''audit_log''] = JArr [JObj [(''message'', JStr ''Drafted'')]]
   \<and> fst (x_publish accept_all array_items example_norm example_cast net_down example_env
         ''2024-01-02T00:00:00.000Z'' 1704153600000 ''p3'' False ready_store [])
     = Inl (errorWithCode ''X_PUBLISH_FAILED'' ''X post failed'' JUndefined)
   \<and> get_path (lookup (fst (snd (x_publish accept_all array_items example_norm example_cast net_down
         example_env ''2024-01-02T00:00:00.000Z'' 1704153600000 ''p3'' False ready_store []))) ''p3'')
         [''ops'', ''x_publish_status''] = JStr ''failed''
   \<and> get_path (lookup (fst (snd (x_publish accept_all array_items example_norm example_cast net_down
         example_env ''2024-01-02T00:00:00.000Z'' 1704153600000 ''p3'' False ready_store []))) ''p3'')
         [''ops'', ''audit_log''] = JArr [JObj [(''message'', JStr ''Drafted'')]]
   \<and> fst (launch accept_all array_items example_cast example_env None
         (\<lambda>claimed. Inl (errorWithCode ''LOGO_REQUIRED'' ''Token logo is required'' JUndefined))
         ''2024-01-02T00:00:00.000Z'' 1704153600000 ''p3'' False ready_store)
     = Inl (errorWithCode ''LOGO_REQUIRED'' ''Token logo is required'' JUndefined)
   \<and> get_path (lookup (snd (launch accept_all array_items example_cast example_env None
         (\<lambda>claimed. Inl (errorWithCode ''LOGO_REQUIRED'' ''Token logo is required'' JUndefined))
         ''2024-01-02T00:00:00.000Z'' 1704153600000 ''p3'' False ready_store)) ''p3'')
         [''launch'', ''status''] = JStr ''failed''
   \<and> get_path (lookup (snd (launch accept_all array_items example_cast example_env None
         (\<lambda>claimed. Inl (errorWithCode ''LOGO_REQUIRED'' ''Token logo is required'' JUndefined))
         ''2024-01-02T00:00:00.000Z'' 1704153600000 ''p3'' False ready_store)) ''p3'')
         [''ops'', ''audit_log'']
       = JArr [JObj [(''message'', JStr ''Drafted'')],
               JObj [(''at'', JStr ''2024-01-02T00:00:00.000Z''),
                     (''message'', JStr ''Launch failed: Token logo is required''),
                     (''actor'', JStr ''eliza'')]]"
  by code_simp


section \<open>C6: publishing again after a success\<close>

lemma tg_publish_published:
  assumes "store_get ident st = Some pack"
    and "truthy (get_path pack [''ops'', ''tg_published_at''])"
    and "get_path pack [''ops'', ''tg_publish_status''] = JStr ''published''"
  shows "tg_publish validate audit_parse norm parse net e now_iso now_ms ident False st log =
     (if TG_ENABLE e \<noteq> Some ''true''
        then Inl (errorWithCode ''TG_DISABLED'' ''Telegram publishing disabled'' JUndefined)
      else if unset (TG_BOT_TOKEN e) \<or> unset (TG_CHAT_ID e)
        then Inl (errorWithCode ''TG_CONFIG_MISSING'' ''Telegram configuration missing''
                (JObj [(''missingKeys'', JArr
                   ((if unset (TG_BOT_TOKEN e) then [JStr ''TG_BOT_TOKEN''] else [])
                    @ (if unset (TG_CHAT_ID e) then [JStr ''TG_CHAT_ID''] else [])))]))
      else if truthy (get_path pack [''ops'', ''checklist'', ''tg_ready''])
        then Inr pack
      else Inl (errorWithCode ''TG_NOT_READY'' ''Telegram checklist not ready'' JUndefined),
      st, log)"
  using assms by (simp add: tg_publish_def)

lemma x_publish_published:
  assumes "store_get ident st = Some pack"
    and "truthy (get_path pack [''ops'', ''x_published_at''])"
    and "get_path pack [''ops'', ''x_publish_status''] = JStr ''published''"
  shows "x_publish validate audit_parse norm parse net e now_iso now_ms ident False st log =
     (if X_ENABLE e \<noteq> Some ''true''
        then Inl (errorWithCode ''X_DISABLED'' ''X publishing disabled'' JUndefined)
      else if unset (X_API_KEY e) \<or> unset (X_API_SECRET e) \<or> unset (X_ACCESS_TOKEN e)
              \<or> unset (X_ACCESS_SECRET e)
        then Inl (errorWithCode ''X_CONFIG_MISSING'' ''X configuration missing''
                (JObj [(''missingKeys'', JArr
                   ((if unset (X_API_KEY e) then [JStr ''X_API_KEY''] else [])
                    @ (if unset (X_API_SECRET e) then [JStr ''X_API_SECRET''] else [])
                    @ (if unset (X_ACCESS_TOKEN e) then [JStr ''X_ACCESS_TOKEN''] else [])
                    @ (if unset (X_ACCESS_SECRET e) then [JStr ''X_ACCESS_SECRET''] else [])))]))
      else if truthy (get_path pack [''ops'', ''checklist'', ''x_ready''])
        then Inr pack
      else Inl (errorWithCode ''X_NOT_READY'' ''X checklist not ready'' JUndefined),
      st, log)"
  using assms by (simp add: x_publish_def)

text \<open>
  Claim C6, amended.  For a stored LaunchPack whose channel status is \<open>published\<close> with
  its \<open>published_at\<close> set, a publish call for that channel without \<open>force\<close> makes no
  remote call and writes nothing.  When the channel is enabled, its credentials are
  configured and the record's readiness flag (\<open>tg_ready\<close>, \<open>x_ready\<close>) is set, it
  returns the stored record itself, hence the result ids persisted before.  Otherwise
  it raises the error of the first check that fails, in this order: the channel is
  not enabled (\<open>TG_DISABLED\<close>, \<open>X_DISABLED\<close>), a credential is missing
  (\<open>TG_CONFIG_MISSING\<close>, \<open>X_CONFIG_MISSING\<close>, naming the missing keys), the readiness
  flag is not set (\<open>TG_NOT_READY\<close>, \<open>X_NOT_READY\<close>).
\<close>

theorem publish_after_success_is_noop:
  "(store_get ident st = Some pack
      \<and> truthy (get_path pack [''ops'', ''tg_published_at''])
      \<and> get_path pack [''ops'', ''tg_publish_status''] = JStr ''published'' \<longrightarrow>
      tg_publish validate audit_parse norm parse net e now_iso now_ms ident False st log =
        (if TG_ENABLE e \<noteq> Some ''true''
           then Inl (errorWithCode ''TG_DISABLED'' ''Telegram publishing disabled'' JUndefined)
         else if unset (TG_BOT_TOKEN e) \<or> unset (TG_CHAT_ID e)
           then Inl (errorWithCode ''TG_CONFIG_MISSING'' ''Telegram configuration missing''
                   (JObj [(''missingKeys'', JArr
                      ((if unset (TG_BOT_TOKEN e) then [JStr ''TG_BOT_TOKEN''] else [])
                       @ (if unset (TG_CHAT_ID e) then [JStr ''TG_CHAT_ID''] else [])))]))
         else if truthy (get_path pack [''ops'', ''checklist'', ''tg_ready''])
           then Inr pack
         else Inl (errorWithCode ''TG_NOT_READY'' ''Telegram checklist not ready'' JUndefined),
         st, log))
   \<and> (store_get ident st = Some pack
      \<and> truthy (get_path pack [''ops'', ''x_published_at''])
      \<and> get_path pack [''ops'', ''x_publish_status''] = JStr ''published'' \<longrightarrow>
      x_publish validate audit_parse norm parse net e now_iso now_ms ident False st log =
        (if X_ENABLE e \<noteq> Some ''true''
           then Inl (errorWithCode ''X_DISABLED'' ''X publishing disabled'' JUndefined)
         else if unset (X_API_KEY e) \<or> unset (X_API_SECRET e) \<or> unset (X_ACCESS_TOKEN e)
                 \<or> unset (X_ACCESS_SECRET e)
           then Inl (errorWithCode ''X_CONFIG_MISSING'' ''X configuration missing''
                   (JObj [(''missingKeys'', JArr
                      ((if unset (X_API_KEY e) then [JStr ''X_API_KEY''] else [])
                       @ (if unset (X_API_SECRET e) then [JStr ''X_API_SECRET''] else [])
                       @ (if unset (X_ACCESS_TOKEN e) then [JStr ''X_ACCESS_TOKEN''] else [])
                       @ (if unset (X_ACCESS_SECRET e) then [JStr ''X_ACCESS_SECRET''] else [])))]))
         else if truthy (get_path pack [''ops'', ''checklist'', ''x_ready''])
           then Inr pack
         else Inl (errorWithCode ''X_NOT_READY'' ''X checklist not ready'' JUndefined),
         st, log))"
  using tg_publish_published [where ident = ident and st = st and pack = pack and validate = validate
      and audit_parse = audit_parse and norm = norm and parse = parse and net = net and e = e
      and now_iso = now_iso and now_ms = now_ms and log = log]
    x_publish_published [where ident = ident and st = st and pack = pack and validate = validate
      and audit_parse = audit_parse and norm = norm and parse = parse and net = net and e = e
      and now_iso = now_iso and now_ms = now_ms and log = log]
  by blast

theorem publish_after_success_is_noop_witness:
  "store_get ''p4'' (published_store True) = Some (JObj (published_fields True))
   \<and> truthy (get_path (JObj (published_fields True)) [''ops'', ''tg_published_at''])
   \<and> get_path (JObj (published_fields True)) [''ops'', ''tg_publish_status''] = JStr ''published''
   \<and> TG_ENABLE example_env = Some ''true'' \<and> \<not> unset (TG_BOT_TOKEN example_env)
   \<and> \<not> unset (TG_CHAT_ID example_env)
   \<and> truthy (get_path (JObj (published_fields True)) [''ops'', ''checklist'', ''tg_ready''])
   \<and> tg_publish accept_all array_items example_norm example_cast net_up example_env
        ''2024-01-02T00:00:00.000Z'' 1704153600000 ''p4'' False (published_store True) []
       = (Inr (JObj (published_fields True)), published_store True, [])
   \<and> get_path (JObj (published_fields True)) [''ops'', ''tg_message_ids'']
       = JArr [JStr ''101'', JStr ''102'', JStr ''103'']
   \<and> tg_publish accept_all array_items example_norm example_cast net_up
        (example_env \<lparr> TG_ENABLE := Some ''false'' \<rparr>)
        ''2024-01-02T00:00:00.000Z'' 1704153600000 ''p4'' False (published_store True) []
       = (Inl (errorWithCode ''TG_DISABLED'' ''Telegram publishing disabled'' JUndefined),
          published_store True, [])
   \<and> tg_publish accept_all array_items example_norm example_cast net_up
        (example_env \<lparr> TG_CHAT_ID := None \<rparr>)
        ''2024-01-02T00:00:00.000Z'' 1704153600000 ''p4'' False (published_store True) []
       = (Inl (errorWithCode ''TG_CONFIG_MISSING'' ''Telegram configuration missing''
                 (JObj [(''missingKeys'', JArr [JStr ''TG_CHAT_ID''])])),
          published_store True, [])"
proof -
  have h1: "store_get ''p4'' (published_store True) = Some (JObj (published_fields True))"
    by (simp add: store_get_def published_store_def)
  have h2: "truthy (get_path (JObj (published_fields True)) [''ops'', ''tg_published_at''])"
    and h3: "get_path (JObj (published_fields True)) [''ops'', ''tg_publish_status''] = JStr ''published''"
    and h5: "truthy (get_path (JObj (published_fields True)) [''ops'', ''checklist'', ''tg_ready''])"
    and ids: "get_path (JObj (published_fields True)) [''ops'', ''tg_message_ids'']
       = JArr [JStr ''101'', JStr ''102'', JStr ''103'']"
    by (simp_all add: published_fields_def)
  have h4: "TG_ENABLE example_env = Some ''true''" "\<not> unset (TG_BOT_TOKEN example_env)"
    "\<not> unset (TG_CHAT_ID example_env)"
    by (simp_all add: example_env_def unset_def)
  note T = publish_after_success_is_noop [where ident = "''p4''" and st = "published_store True"
      and pack = "JObj (published_fields True)" and validate = accept_all
      and audit_parse = array_items and norm = example_norm and parse = example_cast and net = net_up
      and now_iso = "''2024-01-02T00:00:00.000Z''" and now_ms = 1704153600000 and log = "[]",
      THEN conjunct1, rule_format, OF conjI [OF h1 conjI [OF h2 h3]]]
  have r1: "tg_publish accept_all array_items example_norm example_cast net_up example_env
        ''2024-01-02T00:00:00.000Z'' 1704153600000 ''p4'' False (published_store True) []
       = (Inr (JObj (published_fields True)), published_store True, [])"
    using T [of example_env] h4 h5 by simp
  have r2: "tg_publish accept_all array_items example_norm example_cast net_up
        (example_env \<lparr> TG_ENABLE := Some ''false'' \<rparr>)
        ''2024-01-02T00:00:00.000Z'' 1704153600000 ''p4'' False (published_store True) []
       = (Inl (errorWithCode ''TG_DISABLED'' ''Telegram publishing disabled'' JUndefined),
          published_store True, [])"
    using T [of "example_env \<lparr> TG_ENABLE := Some ''false'' \<rparr>"] by simp
  have r3: "tg_publish accept_all array_items example_norm example_cast net_up
        (example_env \<lparr> TG_CHAT_ID := None \<rparr>)
        ''2024-01-02T00:00:00.000Z'' 1704153600000 ''p4'' False (published_store True) []
       = (Inl (errorWithCode ''TG_CONFIG_MISSING'' ''Telegram configuration missing''
                 (JObj [(''missingKeys'', JArr [JStr ''TG_CHAT_ID''])])),
          published_store True, [])"
    using T [of "example_env \<lparr> TG_CHAT_ID := None \<rparr>"]
    by (simp add: example_env_def unset_def)
  show ?thesis using h1 h2 h3 h4 h5 r1 ids r2 r3 by (intro conjI)
qed

text \<open>
  Claim C6 as stated holds for every published LaunchPack.  The enabled, configured
  and ready checks run before the published short-circuit: a published record whose
  \<open>tg_ready\<close> flag is off is answered with \<open>TG_NOT_READY\<close>, not with the stored record.
\<close>

theorem published_but_not_ready_is_refused:
  "truthy (get_path (JObj (published_fields False)) [''ops'', ''tg_published_at''])
   \<and> get_path (JObj (published_fields False)) [''ops'', ''tg_publish_status''] = JStr ''published''
   \<and> store_get ''p4'' (published_store False) = Some (JObj (published_fields False))
   \<and> tg_publish accept_all array_items example_norm example_cast net_up example_env
        ''2024-01-02T00:00:00.000Z'' 1704153600000 ''p4'' False (published_store False) []
       = (Inl (errorWithCode ''TG_NOT_READY'' ''Telegram checklist not ready'' JUndefined),
          published_store False, [])"
  by code_simp


section \<open>The in-memory store: publish claims, version counter, due scans\<close>

text \<open>
  What the in-memory store does on the paths where the SQL repository differs: a
  publish claim succeeds exactly from \<open>idle\<close> (or no status) and from \<open>failed\<close> when
  forced or not blocked by the cooldown, and then sets \<open>in_progress\<close> and
  \<open>attempted_at\<close> and clears both error fields; every successful claim and update
  raises \<open>version\<close> by one (below \<open>2^53\<close>, where the sum is exact) and a refused claim
  leaves the store as it was; a due scan
  returns only due records, at most \<open>limit\<close> of them, and all of them when \<open>limit\<close>
  allows.
\<close>

lemma get_prop_or_empty: "get_prop (js_or v (JObj [])) k = get_prop v k"
  by (cases v) (auto simp: js_or_def)

lemma publish_claimed_fields:
  "get_path (publish_claimed key (JObj bs) now_iso requested_at) [''ops'', key @ ''_publish_status'']
     = JStr ''in_progress''"
  "get_path (publish_claimed key (JObj bs) now_iso requested_at) [''ops'', key @ ''_publish_attempted_at'']
     = JStr requested_at"
  "get_path (publish_claimed key (JObj bs) now_iso requested_at) [''ops'', key @ ''_publish_error_code'']
     = JUndefined"
  "get_path (publish_claimed key (JObj bs) now_iso requested_at) [''ops'', key @ ''_publish_error_message'']
     = JUndefined"
  "get_prop (publish_claimed key (JObj bs) now_iso requested_at) ''version''
     = js_add1 (js_nc (lookup bs ''version'') (JNum 1))"
  by (simp_all add: publish_claimed_def Let_def lookup_assign)

lemma claimPublish_unfold:
  assumes ex: "lookup st ident = JObj bs"
  shows "claimPublish key parse now_iso now_ms ident requested_at force st =
     (let status = js_or (get_path (JObj bs) [''ops'', key @ ''_publish_status'']) (JStr ''idle'');
          failedAt = get_path (JObj bs) [''ops'', key @ ''_publish_failed_at'']
      in if status = JStr ''published'' \<or> status = JStr ''in_progress'' then (None, st)
         else if status = JStr ''failed'' \<and> \<not> force
                 \<and> cooldown_blocks now_ms (if truthy failedAt then Some (date_ms parse failedAt) else None)
           then (None, st)
         else (Some (publish_claimed key (JObj bs) now_iso requested_at),
               assign st ident (publish_claimed key (JObj bs) now_iso requested_at)))"
  using ex by (simp add: claimPublish_def publishStatus_def Let_def get_prop_or_empty)

lemma claimPublish_fields:
  assumes ex: "lookup st ident = JObj bs"
    and c: "claimPublish key parse now_iso now_ms ident requested_at force st = (Some updated, st')"
  shows "st' = assign st ident updated"
    and "get_path updated [''ops'', key @ ''_publish_status''] = JStr ''in_progress''"
    and "get_path updated [''ops'', key @ ''_publish_attempted_at''] = JStr requested_at"
    and "get_path updated [''ops'', key @ ''_publish_error_code''] = JUndefined"
    and "get_path updated [''ops'', key @ ''_publish_error_message''] = JUndefined"
    and "get_prop updated ''version'' = js_add1 (js_nc (lookup bs ''version'') (JNum 1))"
proof -
  have u: "updated = publish_claimed key (JObj bs) now_iso requested_at \<and> st' = assign st ident updated"
    using c unfolding claimPublish_unfold [OF ex] Let_def by (simp split: if_splits)
  show "st' = assign st ident updated" using u by simp
  show "get_path updated [''ops'', key @ ''_publish_status''] = JStr ''in_progress''"
    using u publish_claimed_fields(1) by simp
  show "get_path updated [''ops'', key @ ''_publish_attempted_at''] = JStr requested_at"
    using u publish_claimed_fields(2) by simp
  show "get_path updated [''ops'', key @ ''_publish_error_code''] = JUndefined"
    using u publish_claimed_fields(3) by simp
  show "get_path updated [''ops'', key @ ''_publish_error_message''] = JUndefined"
    using u publish_claimed_fields(4) by simp
  show "get_prop updated ''version'' = js_add1 (js_nc (lookup bs ''version'') (JNum 1))"
    using u publish_claimed_fields(5) by simp
qed

lemma claimPublish_refused_unchanged:
  "claimPublish key parse now_iso now_ms ident requested_at force st = (None, st') \<Longrightarrow> st' = st"
  unfolding claimPublish_def Let_def by (simp split: if_splits prod.splits)

lemma status_field_cases:
  "status_field v \<Longrightarrow>
   js_or v (JStr ''idle'') \<in> {JStr ''idle'', JStr ''in_progress'', JStr ''published'', JStr ''failed''}
   \<and> (js_or v (JStr ''idle'') = JStr ''idle'') = (v = JUndefined \<or> v = JStr ''idle'')
   \<and> (js_or v (JStr ''idle'') = JStr ''failed'') = (v = JStr ''failed'')"
  by (cases v) (auto simp: js_or_def)

lemma claimPublish_decision:
  assumes ex: "lookup st ident = JObj bs"
    and sf: "status_field (get_path (JObj bs) [''ops'', key @ ''_publish_status''])"
  shows "(\<exists>updated. fst (claimPublish key parse now_iso now_ms ident requested_at force st) = Some updated)
       = (get_path (JObj bs) [''ops'', key @ ''_publish_status''] = JUndefined
          \<or> get_path (JObj bs) [''ops'', key @ ''_publish_status''] = JStr ''idle''
          \<or> (get_path (JObj bs) [''ops'', key @ ''_publish_status''] = JStr ''failed''
              \<and> (force
                  \<or> \<not> cooldown_blocks now_ms
                        (if truthy (get_path (JObj bs) [''ops'', key @ ''_publish_failed_at''])
                         then Some (date_ms parse (get_path (JObj bs) [''ops'', key @ ''_publish_failed_at'']))
                         else None))))"
proof -
  let ?v = "get_path (JObj bs) [''ops'', key @ ''_publish_status'']"
  note sc = status_field_cases [OF sf]
  show ?thesis
    unfolding claimPublish_unfold [OF ex] Let_def
    using sc by (cases "js_or ?v (JStr ''idle'') = JStr ''failed''") auto
qed

lemma cooldown_blocks_recorded:
  "parse s = Some failedMs \<Longrightarrow> s \<noteq> [] \<Longrightarrow> failedMs \<noteq> 0 \<Longrightarrow>
   cooldown_blocks now_ms (if truthy (JStr s) then Some (date_ms parse (JStr s)) else None)
     = (now_ms - failedMs < 10 * 60 * 1000)"
  by (simp add: cooldown_blocks_def PUBLISH_COOLDOWN_MS_def)

lemma to_double_exact: "\<bar>m\<bar> < 9007199254740992 \<Longrightarrow> to_double m = m"
  by (simp add: to_double_def)

lemma to_double_at_limit: "to_double (9007199254740992 + 1) = 9007199254740992"
  by code_simp

lemma update_version:
  assumes ex: "lookup st ident = JObj bs"
    and v: "validate patch = Inr (JObj ps)"
  shows "\<exists>merged. update validate now_iso ident patch st = (Inr merged, assign st ident merged)
           \<and> get_prop merged ''version'' = js_add1 (js_nc (lookup bs ''version'') (JNum 1))
           \<and> get_prop merged ''updated_at'' = JStr now_iso
           \<and> get_prop merged ''id'' = JStr ident"
  using ex v by (simp add: update_def Let_def lookup_assign)

lemma inmemory_version_bump:
  assumes ex: "lookup st ident = JObj bs" and n: "lookup bs ''version'' = JNum n"
    and small: "\<bar>n + 1\<bar> < 9007199254740992"
  shows "claimLaunch now_iso ident requested_at status st = (Some updated, st')
           \<Longrightarrow> get_prop updated ''version'' = JNum (n + 1) \<and> lookup st' ident = updated"
    and "claimLaunch now_iso ident requested_at status st = (None, st') \<Longrightarrow> st' = st"
    and "claimPublish key parse now_iso now_ms ident requested_at force st = (Some updated, st')
           \<Longrightarrow> get_prop updated ''version'' = JNum (n + 1) \<and> lookup st' ident = updated"
    and "claimPublish key parse now_iso now_ms ident requested_at force st = (None, st') \<Longrightarrow> st' = st"
    and "validate patch = Inr (JObj ps) \<Longrightarrow> update validate now_iso ident patch st = (Inr merged, st')
           \<Longrightarrow> get_prop merged ''version'' = JNum (n + 1) \<and> lookup st' ident = merged"
proof -
  show "claimLaunch now_iso ident requested_at status st = (Some updated, st')
           \<Longrightarrow> get_prop updated ''version'' = JNum (n + 1) \<and> lookup st' ident = updated"
    using ex n to_double_exact [OF small] unfolding claimLaunch_def Let_def
    by (auto simp: lookup_assign js_nc_def split: if_splits)
  show "claimLaunch now_iso ident requested_at status st = (None, st') \<Longrightarrow> st' = st"
    unfolding claimLaunch_def Let_def by (simp split: if_splits)
  show "claimPublish key parse now_iso now_ms ident requested_at force st = (Some updated, st')
           \<Longrightarrow> get_prop updated ''version'' = JNum (n + 1) \<and> lookup st' ident = updated"
  proof -
    assume c: "claimPublish key parse now_iso now_ms ident requested_at force st = (Some updated, st')"
    have "st' = assign st ident updated" using claimPublish_fields(1) [OF ex c] .
    moreover have "get_prop updated ''version'' = js_add1 (js_nc (lookup bs ''version'') (JNum 1))"
      using claimPublish_fields(6) [OF ex c] .
    ultimately show ?thesis using n to_double_exact [OF small] by (simp add: js_nc_def lookup_assign)
  qed
  show "claimPublish key parse now_iso now_ms ident requested_at force st = (None, st') \<Longrightarrow> st' = st"
    by (rule claimPublish_refused_unchanged)
  show "validate patch = Inr (JObj ps) \<Longrightarrow> update validate now_iso ident patch st = (Inr merged, st')
           \<Longrightarrow> get_prop merged ''version'' = JNum (n + 1) \<and> lookup st' ident = merged"
    using update_version [OF ex, of validate patch ps now_iso] n to_double_exact [OF small]
    by (auto simp: js_nc_def lookup_assign)
qed


lemma due_loop_props:
  "set (due_loop key parse nowTs limit results packs) \<subseteq> set results \<union> {p \<in> set packs. pack_due key parse nowTs p}"
proof (induction packs arbitrary: results)
  case Nil
  then show ?case by simp
next
  case (Cons a packs)
  show ?case using Cons.IH [of "results @ [a]"] Cons.IH [of results] by auto
qed

lemma due_loop_length:
  "int (length results) \<le> max limit 0 \<Longrightarrow>
   int (length (due_loop key parse nowTs limit results packs)) \<le> max limit 0"
  by (induction packs arbitrary: results) auto

lemma due_loop_all:
  "int (length results) + int (length (filter (pack_due key parse nowTs) packs)) \<le> limit \<Longrightarrow>
   due_loop key parse nowTs limit results packs = results @ filter (pack_due key parse nowTs) packs"
proof (induction packs arbitrary: results)
  case Nil
  then show ?case by simp
next
  case (Cons a packs)
  show ?case
  proof (cases "limit \<le> int (length results)")
    case True
    then have "length (filter (pack_due key parse nowTs) (a # packs)) = 0"
      using Cons.prems by linarith
    then have "filter (pack_due key parse nowTs) (a # packs) = []"
      by (simp only: length_0_conv)
    then show ?thesis using True by simp
  next
    case False
    show ?thesis
    proof (cases "pack_due key parse nowTs a")
      case True
      have "int (length (results @ [a])) + int (length (filter (pack_due key parse nowTs) packs)) \<le> limit"
        using Cons.prems True by simp
      then show ?thesis using Cons.IH [of "results @ [a]"] True False by simp
    next
      case nd: False
      have "int (length results) + int (length (filter (pack_due key parse nowTs) packs)) \<le> limit"
        using Cons.prems nd by simp
      then show ?thesis using Cons.IH [of results] nd False by simp
    qed
  qed
qed

lemma findDuePublishes_inmemory:
  "set (findDuePublishes key parse nowIso limit st)
     \<subseteq> {p \<in> set (map snd st). pack_due key parse (parse nowIso) p}"
  "int (length (findDuePublishes key parse nowIso limit st)) \<le> max limit 0"
  "int (length (filter (pack_due key parse (parse nowIso)) (map snd st))) \<le> limit \<Longrightarrow>
   findDuePublishes key parse nowIso limit st = filter (pack_due key parse (parse nowIso)) (map snd st)"
  using due_loop_props [of key parse "parse nowIso" limit "[]" "map snd st"]
    due_loop_length [of "[]" limit key parse "parse nowIso" "map snd st"]
    due_loop_all [of "[]" key parse "parse nowIso" "map snd st" limit]
  by (auto simp: findDuePublishes_def)


section \<open>The scenarios of the publish tests\<close>

text \<open>
  The publish tests of the repository, run on the model: three pins give three
  message ids in send order through six requests, and a second publish returns the
  same record with no further request; a main post and two thread entries give three
  posts, each a reply to the id returned for the one before; a failed publish blocks
  an immediate retry, which is accepted when forced or after the cooldown.
\<close>

lemma telegram_publish_twice_scenario:
  "(case tg_publish accept_all array_items example_norm example_cast net_up example_env
           ''2024-01-02T00:00:00.000Z'' 1704153600000 ''p3'' False ready_store [] of
      (r1, st1, log1) \<Rightarrow>
        map_sum id (\<lambda>p. get_path p [''ops'', ''tg_message_ids'']) r1
          = Inr (JArr [JStr ''100'', JStr ''102'', JStr ''104''])
        \<and> map req_url log1 =
            [''https://api.telegram.org/bottoken/sendMessage'',
             ''https://api.telegram.org/bottoken/pinChatMessage'',
             ''https://api.telegram.org/bottoken/sendMessage'',
             ''https://api.telegram.org/bottoken/pinChatMessage'',
             ''https://api.telegram.org/bottoken/sendMessage'',
             ''https://api.telegram.org/bottoken/pinChatMessage'']
        \<and> tg_publish accept_all array_items example_norm example_cast net_up example_env
             ''2024-01-02T00:01:00.000Z'' 1704153660000 ''p3'' False st1 log1 = (r1, st1, log1))"
  by code_simp

lemma x_publish_thread_scenario:
  "(case x_publish accept_all array_items example_norm example_cast net_up example_env
           ''2024-01-02T00:00:00.000Z'' 1704153600000 ''p3'' False ready_store [] of
      (r1, st1, log1) \<Rightarrow>
        map_sum id (\<lambda>p. get_path p [''ops'', ''x_post_ids'']) r1
          = Inr (JArr [JStr ''100'', JStr ''101'', JStr ''102''])
        \<and> map req_body log1 =
            [JObj [(''text'', JStr ''MAIN'')],
             JObj [(''text'', JStr ''T1''), (''reply'', JObj [(''in_reply_to_tweet_id'', JStr ''100'')])],
             JObj [(''text'', JStr ''T2''), (''reply'', JObj [(''in_reply_to_tweet_id'', JStr ''101'')])]]
        \<and> x_publish accept_all array_items example_norm example_cast net_up example_env
             ''2024-01-02T00:01:00.000Z'' 1704153660000 ''p3'' False st1 log1 = (r1, st1, log1))"
  by code_simp

lemma failed_publish_retry_scenario:
  "(case tg_publish accept_all array_items example_norm example_cast net_down example_env
           ''2024-01-01T00:00:00.000Z'' 1704067200000 ''p3'' False ready_store [] of
      (r1, st1, log1) \<Rightarrow>
        map_sum err_code id r1 = Inl (Some ''TG_PUBLISH_FAILED'')
        \<and> get_path (lookup st1 ''p3'') [''ops'', ''tg_publish_status''] = JStr ''failed''
        \<and> tg_publish accept_all array_items example_norm example_cast net_up example_env
             ''2024-01-01T00:05:00.000Z'' 1704067500000 ''p3'' False st1 log1
            = (Inl (errorWithCode ''TG_PUBLISH_IN_PROGRESS'' ''Telegram publish already in progress''
                      JUndefined), st1, log1)
        \<and> map_sum id (\<lambda>p. get_path p [''ops'', ''tg_publish_status''])
             (fst (tg_publish accept_all array_items example_norm example_cast net_up example_env
                     ''2024-01-01T00:05:00.000Z'' 1704067500000 ''p3'' True st1 log1))
            = Inr (JStr ''published'')
        \<and> map_sum id (\<lambda>p. get_path p [''ops'', ''tg_publish_status''])
             (fst (tg_publish accept_all array_items example_norm example_cast net_up example_env
                     ''2024-01-02T00:00:00.000Z'' 1704153600000 ''p3'' False st1 log1))
            = Inr (JStr ''published''))"
  by code_simp


section \<open>C5: create is idempotent under the idempotency key\<close>

lemma create_sql_existing:
  assumes v: "validate input = Inr parsed"
    and k: "get_prop parsed ''idempotency_key'' = JStr k" "k \<noteq> []"
    and r: "r \<in> set tbl" "r_idempotency_key r = Some k"
  shows "\<exists>hit. create_sql validate uuid now_iso cast fmt input tbl = (Inr (found_pack fmt hit), tbl)
           \<and> hit \<in> set tbl \<and> r_idempotency_key hit = Some k"
proof -
  have ne: "filter (\<lambda>r. r_idempotency_key r = Some k) tbl \<noteq> []"
    using r by (auto simp: filter_empty_conv)
  then obtain hit rest where f: "filter (\<lambda>r. r_idempotency_key r = Some k) tbl = hit # rest"
    by (cases "filter (\<lambda>r. r_idempotency_key r = Some k) tbl") auto
  have "hit \<in> set (filter (\<lambda>r. r_idempotency_key r = Some k) tbl)" using f by simp
  then have h: "hit \<in> set tbl \<and> r_idempotency_key hit = Some k" by simp
  have "create_sql validate uuid now_iso cast fmt input tbl = (Inr (found_pack fmt hit), tbl)"
    using v k f by (simp add: create_sql_def select_by_key_def Let_def)
  then show ?thesis using h by blast
qed

text \<open>
  Claim C5 says that two creates with the same idempotency key, whatever the rest of
  their inputs, yield the same stored id and leave one record under that key.  The
  in-memory store does; \<open>LaunchPackRepository.create\<close> looks the key up in the column
  \<open>idempotency_key\<close>, and its insert, on a conflict on \<open>id\<close>, replaces the document but
  keeps the key the row already has.  Here the first create carries the id of a row
  stored under \<open>key-zero\<close> and the key \<open>launch-key-1\<close>: it returns the record \<open>k1\<close>,
  whose document now says \<open>launch-key-1\<close> while its column still says \<open>key-zero\<close>.  The
  second create with \<open>launch-key-1\<close> finds no row and inserts a second record \<open>u2\<close>.
  The in-memory store returns \<open>k1\<close> both times.
\<close>

theorem sql_create_same_key_two_ids:
  "r_id keyed_row = ''k1'' \<and> r_idempotency_key keyed_row = Some ''key-zero''
   \<and> (case create_sql accept_all ''u1'' ''2024-01-01T00:05:00.000Z'' example_cast example_fmt
           (JObj [(''id'', JStr ''k1''), (''idempotency_key'', JStr ''launch-key-1''),
                  (''brand'', JObj [(''name'', JStr ''B'')])]) [keyed_row] of
      (r1, tbl1) \<Rightarrow>
        map_sum id (\<lambda>p. get_prop p ''id'') r1 = Inr (JStr ''k1'')
        \<and> map_sum id (\<lambda>p. get_prop p ''idempotency_key'') r1 = Inr (JStr ''launch-key-1'')
        \<and> map r_id tbl1 = [''k1'']
        \<and> map r_idempotency_key tbl1 = [Some ''key-zero'']
        \<and> map (\<lambda>r. get_prop (r_data r) ''idempotency_key'') tbl1 = [JStr ''launch-key-1'']
        \<and> (case create_sql accept_all ''u2'' ''2024-01-02T00:00:00.000Z'' example_cast example_fmt
                  (JObj [(''idempotency_key'', JStr ''launch-key-1''),
                         (''brand'', JObj [(''name'', JStr ''C'')])]) tbl1 of
             (r2, tbl2) \<Rightarrow>
               map_sum id (\<lambda>p. get_prop p ''id'') r2 = Inr (JStr ''u2'')
               \<and> map r_id tbl2 = [''k1'', ''u2'']
               \<and> map (\<lambda>r. get_prop (r_data r) ''idempotency_key'') tbl2
                    = [JStr ''launch-key-1'', JStr ''launch-key-1'']))
   \<and> (case create accept_all ''u1'' ''2024-01-01T00:05:00.000Z''
           (JObj [(''id'', JStr ''k1''), (''idempotency_key'', JStr ''launch-key-1''),
                  (''brand'', JObj [(''name'', JStr ''B'')])]) [(''k1'', r_data keyed_row)] of
      (r1, st1) \<Rightarrow>
        map_sum id (\<lambda>p. get_prop p ''id'') r1 = Inr (JStr ''k1'')
        \<and> create accept_all ''u2'' ''2024-01-02T00:00:00.000Z''
             (JObj [(''idempotency_key'', JStr ''launch-key-1''),
                    (''brand'', JObj [(''name'', JStr ''C'')])]) st1 = (r1, st1))"
  by code_simp


section \<open>The SQL update\<close>

text \<open>
  \<open>LaunchPackRepository.update\<close> merges the patch into the document read from the
  row, as the in-memory store does: a field of the stored document that the validated patch
  does not touch keeps its value in the returned document, and the version counter goes up
  by one. The statement fails only when a timestamp does not cast.
\<close>

lemma update_sql_frame:
  assumes g: "get_sql fmt ident tbl = Some (JObj bs)"
    and v: "validate patch = Inr parsed"
    and hp: "has_path (JObj bs) (k # ks)"
    and un: "untouched parsed (k # ks)"
    and k: "k \<noteq> ''id''" "k \<noteq> ''updated_at''" "k \<noteq> ''version''"
  shows "(\<exists>merged tbl'. update_sql validate now_iso cast fmt ident patch tbl = (Inr merged, tbl')
            \<and> has_path merged (k # ks)
            \<and> get_path merged (k # ks) = get_path (JObj bs) (k # ks)
            \<and> get_prop merged ''version'' = js_add1 (js_nc (lookup bs ''version'') (JNum 1)))
         \<or> update_sql validate now_iso cast fmt ident patch tbl = (Inl cast_error, tbl)"
proof -
  obtain m where m: "deepMerge (JObj bs) parsed = JObj m"
    using deepMerge_object [OF un] by blast
  have fr: "has_path (JObj m) (k # ks) \<and> get_path (JObj m) (k # ks) = get_path (JObj bs) (k # ks)"
    using deepMerge_frame [OF hp un] m by simp
  let ?merged = "JObj (assign (assign (assign m ''id'' (JStr ident)) ''updated_at'' (JStr now_iso))
                   ''version'' (js_add1 (js_nc (lookup bs ''version'') (JNum 1))))"
  have p: "has_path ?merged (k # ks) \<and> get_path ?merged (k # ks) = get_path (JObj bs) (k # ks)
           \<and> get_prop ?merged ''version'' = js_add1 (js_nc (lookup bs ''version'') (JNum 1))"
    using fr k by (simp add: lookup_assign has_key_assign)
  have "(\<exists>tbl'. update_sql validate now_iso cast fmt ident patch tbl = (Inr ?merged, tbl'))
        \<or> update_sql validate now_iso cast fmt ident patch tbl = (Inl cast_error, tbl)"
    using g v m
    by (simp add: update_sql_def Let_def split: option.splits prod.splits)
  then show ?thesis using p by blast
qed

section \<open>C7: a patch and the fields it does not mention\<close>

text \<open>
  The schema tests of the repository on the model of the schemas: \<open>baseInput\<close> parses,
  an empty \<open>brand.name\<close> and a schedule time that is no date-time are rejected; a
  patch is parsed key by key, and a nested object that it gives is parsed as a whole
  object: a \<open>brand\<close> without \<open>name\<close> and \<open>ticker\<close> is rejected, and an \<open>ops\<close> or an
  \<open>x\<close> comes back with the defaults of the keys it does not give.
\<close>

lemma validation_scenarios:
  "map_sum err_message (\<lambda>p. (get_path p [''brand'', ''name''], get_path p [''assets'', ''memes'', ''length'']))
       (LaunchPackValidation_create example_formats baseInput)
     = Inr (JStr ''Meme King'', JNum 1)
   \<and> LaunchPackValidation_create example_formats
        (JObj [(''brand'', JObj [(''name'', JStr ''''), (''ticker'', JStr ''KING'')])])
     = Inl (zod_error [([''brand'', ''name''], ''too_small'')])
   \<and> LaunchPackValidation_update example_formats
        (JObj [(''tg'', JObj [(''schedule'', JArr [JObj [(''when'', JStr ''tomorrow 3pm''),
                                                       (''text'', JStr ''bad'')]])])])
     = Inl (zod_error [([''tg'', ''schedule'', ''0'', ''when''], ''invalid_string'')])
   \<and> LaunchPackValidation_update example_formats (JObj []) = Inr (JObj [])
   \<and> LaunchPackValidation_update example_formats
        (JObj [(''brand'', JObj [(''tagline'', JStr ''NewTag'')])])
     = Inl (zod_error [([''brand'', ''name''], ''invalid_type''),
                       ([''brand'', ''ticker''], ''invalid_type'')])
   \<and> LaunchPackValidation_update example_formats checklist_patch
     = Inr (JObj [(''ops'', JObj [(''checklist'', JObj [(''copy_complete'', JBool False),
                                                        (''qa'', JBool True)]),
                                  (''audit_log'', JArr [])])])
   \<and> LaunchPackValidation_update example_formats main_post_patch
     = Inr (JObj [(''x'', JObj [(''main_post'', JStr ''Updated''), (''thread'', JArr []),
                                (''reply_bank'', JArr []), (''schedule'', JArr [])])])"
  by code_simp

text \<open>
  Claim C7 says that \<open>update(id, patch)\<close> merges deeply and that every field of the
  stored record that the patch does not mention is present and unchanged in the
  merged result.  \<open>deepMerge\<close> does that with the patch it is given (\<open>deepMerge_frame\<close>);
  \<open>update\<close> gives it the patch as parsed by the update schema, which is the record's
  schema made partial at the top level only, so that an object under a top-level key is
  filled up with the defaults of that object.  Here the record is created from the
  input of the repository's store tests and patched with the patches of two of them.
  The patch \<open>{ops: {checklist: {copy_complete: false, qa: true}}}\<close> does not mention
  \<open>ops.audit_log\<close>: the checklist is merged and the stored audit entry is gone.  The
  patch \<open>{x: {main_post: 'Updated'}}\<close> does not mention \<open>x.thread\<close> and \<open>x.schedule\<close>:
  both are empty afterwards.  The same on the in-memory store and on the repository.
\<close>

theorem update_resets_fields_the_patch_omits:
  "untouched checklist_patch [''ops'', ''audit_log'']
   \<and> untouched main_post_patch [''x'', ''thread'']
   \<and> untouched main_post_patch [''x'', ''schedule'']
   \<and> (case create (LaunchPackValidation_create example_formats) ''u1'' ''2024-01-01T00:00:00.000Z''
             baseInput [] of
        (r0, st0) \<Rightarrow>
          map_sum id (\<lambda>p. (get_prop p ''id'', get_path p [''ops'', ''audit_log''],
                            get_path p [''x'', ''thread''], get_path p [''x'', ''schedule''])) r0
            = Inr (JStr ''u1'',
                   JArr [JObj [(''at'', JStr ''2024-01-01T00:00:00Z''), (''message'', JStr ''Drafted'')]],
                   JArr [JStr ''Chapter 1'', JStr ''Chapter 2''],
                   JArr [JObj [(''when'', JStr ''2024-01-01T01:00:00Z''), (''text'', JStr ''First post'')]])
          \<and> (case update (LaunchPackValidation_update example_formats) ''2024-01-02T00:00:00.000Z''
                      ''u1'' checklist_patch st0 of
               (r1, st1) \<Rightarrow>
                 map_sum id (\<lambda>p. (get_path p [''ops'', ''checklist''], get_path p [''ops'', ''audit_log''])) r1
                   = Inr (JObj [(''copy_complete'', JBool False), (''qa'', JBool True)], JArr [])
                 \<and> get_path (lookup st1 ''u1'') [''ops'', ''audit_log''] = JArr [])
          \<and> (case update (LaunchPackValidation_update example_formats) ''2024-01-02T00:00:00.000Z''
                      ''u1'' main_post_patch st0 of
               (r2, st2) \<Rightarrow>
                 map_sum id (\<lambda>p. (get_path p [''x'', ''main_post''], get_path p [''x'', ''thread''],
                                   get_path p [''x'', ''schedule''])) r2
                   = Inr (JStr ''Updated'', JArr [], JArr [])
                 \<and> get_path (lookup st2 ''u1'') [''x'', ''thread''] = JArr []))
   \<and> (case create_sql (LaunchPackValidation_create example_formats) ''u1'' ''2024-01-01T00:00:00.000Z''
             example_cast example_fmt baseInput [] of
        (r0, tbl0) \<Rightarrow>
          map_sum id (\<lambda>p. (get_prop p ''id'', get_path p [''ops'', ''audit_log''],
                            get_path p [''x'', ''thread''])) r0
            = Inr (JStr ''u1'',
                   JArr [JObj [(''at'', JStr ''2024-01-01T00:00:00Z''), (''message'', JStr ''Drafted'')]],
                   JArr [JStr ''Chapter 1'', JStr ''Chapter 2''])
          \<and> (case update_sql (LaunchPackValidation_update example_formats) ''2024-01-02T00:00:00.000Z''
                      example_cast example_fmt ''u1'' checklist_patch tbl0 of
               (r1, tbl1) \<Rightarrow>
                 map_sum id (\<lambda>p. (get_path p [''ops'', ''checklist''], get_path p [''ops'', ''audit_log''])) r1
                   = Inr (JObj [(''copy_complete'', JBool False), (''qa'', JBool True)], JArr [])
                 \<and> map_option (\<lambda>p. get_path p [''ops'', ''audit_log''])
                       (get_sql example_fmt ''u1'' tbl1) = Some (JArr []))
          \<and> (case update_sql (LaunchPackValidation_update example_formats) ''2024-01-02T00:00:00.000Z''
                      example_cast example_fmt ''u1'' main_post_patch tbl0 of
               (r2, tbl2) \<Rightarrow>
                 map_sum id (\<lambda>p. (get_path p [''x'', ''main_post''], get_path p [''x'', ''thread''])) r2
                   = Inr (JStr ''Updated'', JArr [])
                 \<and> map_option (\<lambda>p. get_path p [''x'', ''thread''])
                       (get_sql example_fmt ''u1'' tbl2) = Some (JArr [])))"
  by code_simp


end
